theory Spec2Isabelle
  imports Main "HOL-Library.AList"
begin

section \<open>Python values\<close>

text \<open>
  The values that \<^verbatim>\<open>response.json()\<close> hands to the script, and the values the script
  passes to \<^verbatim>\<open>json.dumps\<close>: \<^verbatim>\<open>None\<close>, booleans, integers, strings, lists and
  dictionaries with string keys. A dictionary keeps its insertion order, so it is an
  association list. Strings are sequences of code points below 256. JSON numbers with a
  fraction are outside the model.
\<close>

datatype pyval =
    PNone
  | PBool bool
  | PInt int
  | PStr string
  | PList "pyval list"
  | PDict "(string \<times> pyval) list"

datatype py_exc =
    AttributeError
  | TypeError
  | KeyError
  | ValueError
  | JSONDecodeError
  | RequestException

text \<open>Truth value of an object, as \<^verbatim>\<open>if x:\<close> and \<^verbatim>\<open>not x\<close> test it.\<close>

fun truthy :: "pyval \<Rightarrow> bool" where
  "truthy PNone = False"
| "truthy (PBool b) = b"
| "truthy (PInt i) = (i \<noteq> 0)"
| "truthy (PStr s) = (s \<noteq> [])"
| "truthy (PList xs) = (xs \<noteq> [])"
| "truthy (PDict kvs) = (kvs \<noteq> [])"

text \<open>
  \<^verbatim>\<open>x.get(key)\<close>: a dictionary answers the stored value, or \<^verbatim>\<open>None\<close> for a missing
  key; any other JSON value has no attribute \<^verbatim>\<open>get\<close>.
\<close>

fun py_get :: "pyval \<Rightarrow> string \<Rightarrow> py_exc + pyval" where
  "py_get (PDict kvs) k = Inr (case map_of kvs k of None \<Rightarrow> PNone | Some v \<Rightarrow> v)"
| "py_get _ k = Inl AttributeError"

text \<open>\<^verbatim>\<open>len(x)\<close>.\<close>

fun py_len :: "pyval \<Rightarrow> py_exc + nat" where
  "py_len (PList xs) = Inr (length xs)"
| "py_len (PDict kvs) = Inr (length kvs)"
| "py_len (PStr s) = Inr (length s)"
| "py_len _ = Inl TypeError"

text \<open>
  The items a \<^verbatim>\<open>for\<close> loop visits: the elements of a list, the keys of a dictionary,
  the one-character strings of a string.
\<close>

fun py_iter :: "pyval \<Rightarrow> py_exc + pyval list" where
  "py_iter (PList xs) = Inr xs"
| "py_iter (PDict kvs) = Inr (map (\<lambda>kv. PStr (fst kv)) kvs)"
| "py_iter (PStr s) = Inr (map (\<lambda>c. PStr [c]) s)"
| "py_iter _ = Inl TypeError"

subsection \<open>\<^verbatim>\<open>str\<close> and \<^verbatim>\<open>repr\<close>, as f-strings apply them\<close>

definition digit_char :: "nat \<Rightarrow> char" where
  "digit_char d = char_of (48 + d)"

function dec_nat :: "nat \<Rightarrow> string" where
  "dec_nat n = (if n < 10 then [digit_char n] else dec_nat (n div 10) @ [digit_char (n mod 10)])"
  by pat_completeness auto
termination
  by (relation "measure id") auto

definition dec_int :: "int \<Rightarrow> string" where
  "dec_int i = (if i < 0 then CHR ''-'' # dec_nat (nat (- i)) else dec_nat (nat i))"

definition hex_char :: "nat \<Rightarrow> char" where
  "hex_char d = (if d < 10 then char_of (48 + d) else char_of (87 + d))"

text \<open>
  \<^verbatim>\<open>repr\<close> of a string: single quotes, unless the string holds a single quote and no
  double quote; the quote and the backslash are escaped, tab, newline and carriage return
  are written with their letters, and the other unprintable code points as \<^verbatim>\<open>\xhh\<close>.
\<close>

definition repr_char :: "char \<Rightarrow> char \<Rightarrow> string" where
  "repr_char q c =
     (let n = (of_char c :: nat) in
      if c = q \<or> n = 92 then [CHR 0x5C, c]
      else if n = 9 then [CHR 0x5C, CHR ''t'']
      else if n = 10 then [CHR 0x5C, CHR ''n'']
      else if n = 13 then [CHR 0x5C, CHR ''r'']
      else if n < 32 \<or> (127 \<le> n \<and> n \<le> 160) \<or> n = 173
        then [CHR 0x5C, CHR ''x'', hex_char (n div 16), hex_char (n mod 16)]
      else [c])"

definition repr_str :: "string \<Rightarrow> string" where
  "repr_str s =
     (let q = (if CHR 0x27 \<in> set s \<and> CHR 0x22 \<notin> set s then CHR 0x22 else CHR 0x27)
      in q # concat (map (repr_char q) s) @ [q])"

fun join :: "string \<Rightarrow> string list \<Rightarrow> string" where
  "join sep [] = []"
| "join sep [x] = x"
| "join sep (x # y # ys) = x @ sep @ join sep (y # ys)"

fun py_repr :: "pyval \<Rightarrow> string" where
  "py_repr PNone = ''None''"
| "py_repr (PBool b) = (if b then ''True'' else ''False'')"
| "py_repr (PInt i) = dec_int i"
| "py_repr (PStr s) = repr_str s"
| "py_repr (PList xs) = ''['' @ join '', '' (map py_repr xs) @ '']''"
| "py_repr (PDict kvs) =
     ''{'' @ join '', '' (map (\<lambda>kv. repr_str (fst kv) @ '': '' @ py_repr (snd kv)) kvs) @ ''}''"

fun py_str :: "pyval \<Rightarrow> string" where
  "py_str (PStr s) = s"
| "py_str v = py_repr v"

section \<open>Configuration, environment and the trace of a run\<close>

text \<open>The module-level settings of the script.\<close>

record config =
  INSTANCE :: string
  ACCOUNT_NAME :: string
  DISPLAY_NAME :: string
  SNOWFLAKE_ACCOUNT :: string
  SNOWFLAKE_USERNAME :: string
  SNOWFLAKE_ROLE :: string
  PRIVATE_KEY_FILE :: string
  PASSPHRASE :: string
  INTEGRATION_FRIENDLY_NAME :: string
  INTEGRATION_DESCRIPTION :: string
  WAREHOUSE_NAME :: string
  WAREHOUSE_ACTIVITIES :: "string list"
  EXISTING_ACCOUNT_ID :: string

datatype http_method = POST | GET | PUT

text \<open>
  A request as \<^verbatim>\<open>requests.post/get/put\<close> receives it. \<^verbatim>\<open>data\<close> is the value handed
  to \<^verbatim>\<open>json.dumps\<close>; the serialisation itself is not expanded into text. A header value
  is \<^verbatim>\<open>None\<close> when the environment variable is unset.
\<close>

record request =
  req_method :: http_method
  req_url :: string
  req_headers :: "(string \<times> string option) list"
  req_data :: "pyval option"

text \<open>
  A response: \<^verbatim>\<open>status_code\<close>, \<^verbatim>\<open>text\<close>, and what \<^verbatim>\<open>json()\<close> returns
  (\<open>None\<close> when the body does not parse, where \<^verbatim>\<open>json()\<close> raises).
\<close>

record response =
  status_code :: int
  resp_text :: string
  resp_json :: "pyval option"

datatype file_result =
    FileContents string
  | FileNotFoundError
  | PermissionError
  | OtherError string

text \<open>
  Everything outside the script: the token in the environment, the file system, and the
  remote service (which answers a request, or makes the HTTP library raise).
\<close>

record world =
  access_token :: "string option"
  read_file :: "string \<Rightarrow> file_result"
  http :: "request \<Rightarrow> py_exc + response"

text \<open>What a run does that can be observed, in order.\<close>

datatype event =
    Print string
  | PrintJson pyval
  | Http request

text \<open>
  A piece of the script either returns a value, calls \<^verbatim>\<open>exit(n)\<close>, or raises an
  exception nobody catches; in each case it has produced some events.
\<close>

datatype 'a outcome = Ret 'a | Exit nat | Raise py_exc

type_synonym 'a run = "'a outcome \<times> event list"

definition ret :: "'a \<Rightarrow> 'a run" where
  "ret a = (Ret a, [])"

definition py_exit :: "nat \<Rightarrow> 'a run" where
  "py_exit n = (Exit n, [])"

definition py_print :: "string \<Rightarrow> unit run" where
  "py_print s = (Ret (), [Print s])"

definition print_json :: "pyval \<Rightarrow> unit run" where
  "print_json v = (Ret (), [PrintJson v])"

definition lift_exc :: "py_exc + 'a \<Rightarrow> 'a run" where
  "lift_exc r = (case r of Inl e \<Rightarrow> (Raise e, []) | Inr a \<Rightarrow> (Ret a, []))"

definition send :: "world \<Rightarrow> request \<Rightarrow> response run" where
  "send w rq = (case http w rq of Inl e \<Rightarrow> (Raise e, [Http rq]) | Inr r \<Rightarrow> (Ret r, [Http rq]))"

text \<open>Sequencing: the second part runs only if the first returned.\<close>

definition andthen :: "'a run \<Rightarrow> ('a \<Rightarrow> 'b run) \<Rightarrow> 'b run" where
  "andthen m f =
     (case fst m of
        Ret a \<Rightarrow> (fst (f a), snd m @ snd (f a))
      | Exit n \<Rightarrow> (Exit n, snd m)
      | Raise e \<Rightarrow> (Raise e, snd m))"

text \<open>The status the process ends with: an uncaught exception ends it with status 1.\<close>

definition exit_status :: "'a run \<Rightarrow> nat" where
  "exit_status m = (case fst m of Ret _ \<Rightarrow> 0 | Exit n \<Rightarrow> n | Raise _ \<Rightarrow> 1)"

definition requests_of :: "event list \<Rightarrow> request list" where
  "requests_of es = concat (map (\<lambda>e. case e of Http rq \<Rightarrow> [rq] | _ \<Rightarrow> []) es)"

definition headers :: "world \<Rightarrow> (string \<times> string option) list" where
  "headers w =
     [(''Content-Type'', Some ''application/json''),
      (''X-Domo-Developer-Token'', access_token w)]"

definition json_of :: "response \<Rightarrow> pyval run" where
  "json_of r = (case resp_json r of None \<Rightarrow> (Raise JSONDecodeError, []) | Some j \<Rightarrow> ret j)"

section \<open>\<^verbatim>\<open>get_private_key_contents\<close>\<close>

definition get_private_key_contents :: "world \<Rightarrow> string \<Rightarrow> string run" where
  "get_private_key_contents w file_path =
     (case read_file w file_path of
        FileContents s \<Rightarrow> ret s
      | FileNotFoundError \<Rightarrow>
          andthen (py_print (''Error: Private key file not found at '' @ [CHR 0x27] @ file_path @ [CHR 0x27]))
            (\<lambda>_. py_exit 1)
      | PermissionError \<Rightarrow>
          andthen (py_print (''Error: Permission denied when reading '' @ [CHR 0x27] @ file_path @ [CHR 0x27]))
            (\<lambda>_. py_exit 1)
      | OtherError e \<Rightarrow>
          andthen (py_print (''Error reading private key file: '' @ e))
            (\<lambda>_. py_exit 1))"

definition before :: "unit run \<Rightarrow> 'a run \<Rightarrow> 'a run" where
  "before m n = andthen m (\<lambda>_. n)"

definition get_field :: "pyval \<Rightarrow> string \<Rightarrow> pyval run" where
  "get_field v k = lift_exc (py_get v k)"

section \<open>Dictionaries that are mutated: a store\<close>

text \<open>
  \<^verbatim>\<open>create_snowflake_account\<close> copies its payload and then assigns into the copy. Whether
  that assignment reaches the payload that is sent depends on which dictionaries are
  shared, so there the dictionaries live in a store: an address is an index into the list
  of allocated dictionaries, and a value is a string or a reference to a dictionary.
\<close>

datatype hval = HStr string | HRef nat

type_synonym heap = "(string \<times> hval) list list"

definition dict_new :: "heap \<Rightarrow> (string \<times> hval) list \<Rightarrow> nat \<times> heap" where
  "dict_new h d = (length h, h @ [d])"

text \<open>\<^verbatim>\<open>d.copy()\<close> is shallow: the new dictionary holds the same references.\<close>

definition dict_copy :: "heap \<Rightarrow> nat \<Rightarrow> nat \<times> heap" where
  "dict_copy h a = (length h, h @ [h ! a])"

definition dict_getitem :: "heap \<Rightarrow> nat \<Rightarrow> string \<Rightarrow> py_exc + hval" where
  "dict_getitem h a k = (case map_of (h ! a) k of None \<Rightarrow> Inl KeyError | Some v \<Rightarrow> Inr v)"

definition dict_setitem :: "heap \<Rightarrow> nat \<Rightarrow> string \<Rightarrow> hval \<Rightarrow> heap" where
  "dict_setitem h a k v = h[a := AList.update k v (h ! a)]"

text \<open>\<^verbatim>\<open>x.copy()\<close> and \<^verbatim>\<open>x[k] = v\<close> on a value that may be a string.\<close>

fun py_copy :: "heap \<Rightarrow> hval \<Rightarrow> py_exc + (nat \<times> heap)" where
  "py_copy h (HRef a) = Inr (dict_copy h a)"
| "py_copy h (HStr s) = Inl AttributeError"

fun py_setitem :: "heap \<Rightarrow> hval \<Rightarrow> string \<Rightarrow> hval \<Rightarrow> py_exc + heap" where
  "py_setitem h (HRef a) k v = Inr (dict_setitem h a k v)"
| "py_setitem h (HStr s) k v = Inl TypeError"

text \<open>
  What \<^verbatim>\<open>json.dumps\<close> reads: the value with every reference followed. A chain of
  references longer than the store is a cycle, which \<^verbatim>\<open>json.dumps\<close> refuses.
\<close>

fun reify :: "nat \<Rightarrow> heap \<Rightarrow> hval \<Rightarrow> pyval option" where
  "reify n h (HStr s) = Some (PStr s)"
| "reify 0 h (HRef a) = None"
| "reify (Suc n) h (HRef a) =
     (if a < length h
      then map_option PDict
             (those (map (\<lambda>kv. map_option (Pair (fst kv)) (reify n h (snd kv))) (h ! a)))
      else None)"

definition dumps :: "heap \<Rightarrow> hval \<Rightarrow> py_exc + pyval" where
  "dumps h v = (case reify (length h) h v of None \<Rightarrow> Inl ValueError | Some j \<Rightarrow> Inr j)"

section \<open>\<^verbatim>\<open>create_snowflake_account\<close>\<close>

definition account_url :: "config \<Rightarrow> string" where
  "account_url cfg = ''https://'' @ INSTANCE cfg @ ''/api/data/v1/accounts''"

definition create_snowflake_account :: "config \<Rightarrow> world \<Rightarrow> response run" where
  "create_snowflake_account cfg w =
     (if INSTANCE cfg = [] then
        before (py_print ''Error: INSTANCE is required. Please set it in the configuration section.'')
          (py_exit 1)
      else if PRIVATE_KEY_FILE cfg = [] then
        before (py_print ''Error: PRIVATE_KEY_FILE is required. Please set it in the configuration section.'')
          (py_exit 1)
      else
        andthen (get_private_key_contents w (PRIVATE_KEY_FILE cfg)) (\<lambda>private_key.
        let url = account_url cfg;
            (configurations, h1) = dict_new []
              [(''account'', HStr (SNOWFLAKE_ACCOUNT cfg)),
               (''username'', HStr (SNOWFLAKE_USERNAME cfg)),
               (''privateKey'', HStr private_key),
               (''passPhrase'', HStr (PASSPHRASE cfg)),
               (''role'', HStr (SNOWFLAKE_ROLE cfg))];
            (payload, h2) = dict_new h1
              [(''name'', HStr (ACCOUNT_NAME cfg)),
               (''displayName'', HStr (DISPLAY_NAME cfg)),
               (''dataProviderType'', HStr ''snowflakekeypairauthentication''),
               (''configurations'', HRef configurations)]
        in
        before (py_print (py_str (case access_token w of None \<Rightarrow> PNone | Some t \<Rightarrow> PStr t)))
       (before (py_print (''Creating Snowflake account '' @ [CHR 0x27] @ DISPLAY_NAME cfg @ [CHR 0x27]
                          @ '' on '' @ INSTANCE cfg @ ''...''))
       (before (py_print (''URL: '' @ url))
       (before (py_print ''Payload (private key truncated):'')
       (let (debug_payload, h3) = dict_copy h2 payload in
        andthen (lift_exc (dict_getitem h3 payload ''configurations'')) (\<lambda>c.
        andthen (lift_exc (py_copy h3 c)) (\<lambda>(c_copy, h4).
        let h5 = dict_setitem h4 debug_payload ''configurations'' (HRef c_copy) in
        andthen (lift_exc (dict_getitem h5 debug_payload ''configurations'')) (\<lambda>d.
        andthen (lift_exc (py_setitem h5 d ''privateKey'' (HStr ''[PRIVATE KEY CONTENTS HIDDEN]''))) (\<lambda>h6.
        andthen (lift_exc (dumps h6 (HRef debug_payload))) (\<lambda>debug_json.
        before (print_json debug_json)
       (andthen (lift_exc (dumps h6 (HRef payload))) (\<lambda>body.
        andthen (send w \<lparr>req_method = POST, req_url = url, req_headers = headers w,
                          req_data = Some body\<rparr>) (\<lambda>response.
        before (py_print (''\<newline>Status Code: '' @ dec_int (status_code response)))
       (before (if status_code response = 200 \<or> status_code response = 201
                then before (py_print ''Success! Account created.'')
                       (py_print (resp_text response))
                else before (py_print ''Error creating account:'')
                       (py_print (resp_text response)))
       (ret response))))))))))))))))"

section \<open>\<^verbatim>\<open>create_byos_integration\<close>\<close>

definition byos_url :: "config \<Rightarrow> string" where
  "byos_url cfg = ''https://'' @ INSTANCE cfg @ ''/api/query/v1/byos/accounts''"

definition byos_payload :: "string \<Rightarrow> string \<Rightarrow> pyval \<Rightarrow> pyval" where
  "byos_payload friendly_name description account_id =
     PDict [(''engine'', PStr ''SNOWFLAKE''),
            (''properties'', PDict
               [(''friendlyName'', PDict [(''key'', PStr ''friendlyName''),
                                          (''configType'', PStr ''CONFIG''),
                                          (''value'', PStr friendly_name)]),
                (''description'', PDict [(''key'', PStr ''description''),
                                         (''configType'', PStr ''CONFIG''),
                                         (''value'', PStr description)]),
                (''serviceAccountId'', PDict [(''key'', PStr ''serviceAccountId''),
                                              (''configType'', PStr ''CONFIG''),
                                              (''value'', PStr (py_str account_id))]),
                (''AUTH_METHOD'', PDict [(''key'', PStr ''AUTH_METHOD''),
                                         (''configType'', PStr ''CONFIG''),
                                         (''value'', PStr ''KEY_PAIR'')]),
                (''ADMIN_AUTH_METHOD'', PDict [(''key'', PStr ''ADMIN_AUTH_METHOD''),
                                               (''configType'', PStr ''CONFIG''),
                                               (''value'', PStr ''KEY_PAIR'')])])]"

definition create_byos_integration ::
  "config \<Rightarrow> world \<Rightarrow> pyval \<Rightarrow> string option \<Rightarrow> string \<Rightarrow> response run" where
  "create_byos_integration cfg w account_id friendly_name description =
     (let friendly_name =
            (case friendly_name of
               None \<Rightarrow> (if INTEGRATION_FRIENDLY_NAME cfg \<noteq> [] then INTEGRATION_FRIENDLY_NAME cfg
                         else DISPLAY_NAME cfg)
             | Some f \<Rightarrow> f);
          description = (if description = [] then INTEGRATION_DESCRIPTION cfg else description);
          url = byos_url cfg;
          payload = byos_payload friendly_name description account_id
      in
      before (py_print (''\<newline>Creating BYOS integration '' @ [CHR 0x27] @ friendly_name @ [CHR 0x27]
                        @ '' on '' @ INSTANCE cfg @ ''...''))
     (before (py_print (''URL: '' @ url))
     (before (py_print ''Payload:'')
     (before (print_json payload)
     (andthen (send w \<lparr>req_method = POST, req_url = url, req_headers = headers w,
                        req_data = Some payload\<rparr>) (\<lambda>response.
      before (py_print (''\<newline>Status Code: '' @ dec_int (status_code response)))
     (before (if status_code response = 200 \<or> status_code response = 201
              then before (py_print ''Success! BYOS integration created.'')
                     (py_print (resp_text response))
              else before (py_print ''Error creating BYOS integration:'')
                     (py_print (resp_text response)))
     (ret response))))))))"

section \<open>\<^verbatim>\<open>get_available_warehouses\<close>\<close>

definition warehouses_url :: "config \<Rightarrow> pyval \<Rightarrow> string" where
  "warehouses_url cfg byos_id =
     ''https://'' @ INSTANCE cfg @ ''/api/query/v1/byos/warehouses/'' @ py_str byos_id"

definition list_request :: "config \<Rightarrow> world \<Rightarrow> pyval \<Rightarrow> request" where
  "list_request cfg w byos_id =
     \<lparr>req_method = GET, req_url = warehouses_url cfg byos_id, req_headers = headers w,
      req_data = None\<rparr>"

definition get_available_warehouses :: "config \<Rightarrow> world \<Rightarrow> pyval \<Rightarrow> pyval option run" where
  "get_available_warehouses cfg w byos_id =
     before (py_print (''\<newline>Fetching available warehouses for BYOS integration '' @ [CHR 0x27]
                       @ py_str byos_id @ [CHR 0x27] @ ''...''))
    (before (py_print (''URL: '' @ warehouses_url cfg byos_id))
    (andthen (send w (list_request cfg w byos_id)) (\<lambda>response.
     before (py_print (''\<newline>Status Code: '' @ dec_int (status_code response)))
    (if status_code response = 200 then
       andthen (json_of response) (\<lambda>warehouses.
       andthen (lift_exc (py_len warehouses)) (\<lambda>n.
       before (py_print (''Found '' @ dec_nat n @ '' available warehouses''))
      (ret (Some warehouses))))
     else
       before (py_print ''Error fetching warehouses:'')
      (before (py_print (resp_text response))
      (ret None))))))"

section \<open>\<^verbatim>\<open>assign_warehouse_to_integration\<close>\<close>

text \<open>
  The scan of lines 278 to 282: the first item whose \<^verbatim>\<open>warehouse\<close> field equals the
  name ends the loop; an item without \<^verbatim>\<open>get\<close> raises.
\<close>

fun find_matching :: "pyval list \<Rightarrow> string \<Rightarrow> py_exc + pyval option" where
  "find_matching [] warehouse_name = Inr None"
| "find_matching (wh # whs) warehouse_name =
     (case py_get wh ''warehouse'' of
        Inl e \<Rightarrow> Inl e
      | Inr v \<Rightarrow> if v = PStr warehouse_name then Inr (Some wh)
                else find_matching whs warehouse_name)"

text \<open>The loop of lines 287 and 288: one line for each item.\<close>

fun print_available :: "pyval list \<Rightarrow> unit run" where
  "print_available [] = ret ()"
| "print_available (wh # whs) =
     andthen (get_field wh ''warehouse'') (\<lambda>v.
     before (py_print (''  - '' @ py_str v))
    (print_available whs))"

definition assignment_payload :: "pyval \<Rightarrow> pyval \<Rightarrow> pyval \<Rightarrow> pyval \<Rightarrow> pyval \<Rightarrow> string list \<Rightarrow> pyval" where
  "assignment_payload deviceName warehouse device instanceSize warehouseSizeFriendlyName activities =
     PList [PDict [(''deviceName'', deviceName),
                   (''warehouse'', warehouse),
                   (''device'', device),
                   (''instanceSize'', instanceSize),
                   (''warehouseSizeFriendlyName'', warehouseSizeFriendlyName),
                   (''activities'', PList (map PStr activities))]]"

definition assign_warehouse_to_integration ::
  "config \<Rightarrow> world \<Rightarrow> pyval \<Rightarrow> string \<Rightarrow> string list option \<Rightarrow> response option run" where
  "assign_warehouse_to_integration cfg w byos_id warehouse_name activities =
     (let activities = (case activities of None \<Rightarrow> WAREHOUSE_ACTIVITIES cfg | Some a \<Rightarrow> a) in
      andthen (get_available_warehouses cfg w byos_id) (\<lambda>warehouses.
      case warehouses of
        None \<Rightarrow>
          before (py_print ''Error: Could not retrieve available warehouses'')
            (ret None)
      | Some warehouses \<Rightarrow>
          andthen (lift_exc (py_iter warehouses)) (\<lambda>items.
          andthen (lift_exc (find_matching items warehouse_name)) (\<lambda>matching_warehouse.
          case matching_warehouse of
            None \<Rightarrow>
              before (py_print (''\<newline>Error: Warehouse '' @ [CHR 0x27] @ warehouse_name @ [CHR 0x27]
                                @ '' not found in available warehouses.''))
             (before (py_print ''Available warehouses:'')
             (before (print_available items)
             (ret None)))
          | Some matching_warehouse \<Rightarrow>
              before (py_print (''\<newline>Found matching warehouse: '' @ warehouse_name))
             (andthen (get_field matching_warehouse ''device'') (\<lambda>dev.
              before (py_print (''  Device: '' @ py_str dev))
             (andthen (get_field matching_warehouse ''warehouseSizeFriendlyName'') (\<lambda>sz.
              before (py_print (''  Size: '' @ py_str sz))
             (let url = warehouses_url cfg byos_id in
              andthen (get_field matching_warehouse ''deviceName'') (\<lambda>f1.
              andthen (get_field matching_warehouse ''warehouse'') (\<lambda>f2.
              andthen (get_field matching_warehouse ''device'') (\<lambda>f3.
              andthen (get_field matching_warehouse ''instanceSize'') (\<lambda>f4.
              andthen (get_field matching_warehouse ''warehouseSizeFriendlyName'') (\<lambda>f5.
              let payload = assignment_payload f1 f2 f3 f4 f5 activities in
              before (py_print (''\<newline>Assigning warehouse '' @ [CHR 0x27] @ warehouse_name @ [CHR 0x27]
                                @ '' to BYOS integration...''))
             (before (py_print (''URL: '' @ url))
             (before (py_print ''Payload:'')
             (before (print_json payload)
             (andthen (send w \<lparr>req_method = PUT, req_url = url, req_headers = headers w,
                                req_data = Some payload\<rparr>) (\<lambda>response.
              before (py_print (''\<newline>Status Code: '' @ dec_int (status_code response)))
             (before (if status_code response = 200 \<or> status_code response = 201
                      then before (py_print ''Success! Warehouse assigned to integration.'')
                             (py_print (resp_text response))
                      else before (py_print ''Error assigning warehouse:'')
                             (py_print (resp_text response)))
             (ret (Some response))))))))))))))))))))))"

section \<open>The main block\<close>

text \<open>Lines 340 to 360: the account identifier, supplied or created.\<close>

definition obtain_account_id :: "config \<Rightarrow> world \<Rightarrow> pyval run" where
  "obtain_account_id cfg w =
     (if EXISTING_ACCOUNT_ID cfg \<noteq> [] then
        before (py_print (replicate 60 (CHR ''='')))
       (before (py_print ''USING EXISTING ACCOUNT'')
       (before (py_print (replicate 60 (CHR ''='')))
       (before (py_print (''Using existing account ID: '' @ EXISTING_ACCOUNT_ID cfg))
       (ret (PStr (EXISTING_ACCOUNT_ID cfg))))))
      else
        andthen (create_snowflake_account cfg w) (\<lambda>account_response.
        if status_code account_response \<in> set [200, 201] then
          andthen (json_of account_response) (\<lambda>account_data.
          andthen (get_field account_data ''id'') (\<lambda>account_id.
          if \<not> truthy account_id then
            before (py_print ''Error: Could not extract account ID from response'')
              (py_exit 1)
          else ret account_id))
        else
          before (py_print ''\<newline>Skipping BYOS integration creation due to account creation failure.'')
            (py_exit 1)))"

text \<open>Lines 362 to 381: integration creation and warehouse assignment.\<close>

definition provision :: "config \<Rightarrow> world \<Rightarrow> pyval \<Rightarrow> unit run" where
  "provision cfg w account_id =
     before (py_print (''\<newline>'' @ replicate 60 (CHR ''='')))
    (before (py_print ''CREATING BYOS INTEGRATION'')
    (before (py_print (replicate 60 (CHR ''='')))
    (andthen (create_byos_integration cfg w account_id None []) (\<lambda>byos_response.
     if status_code byos_response \<in> set [200, 201] \<and> WAREHOUSE_NAME cfg \<noteq> [] then
       andthen (json_of byos_response) (\<lambda>byos_data.
       andthen (get_field byos_data ''id'') (\<lambda>byos_id.
       if truthy byos_id then
         before (py_print (''\<newline>'' @ replicate 60 (CHR ''='')))
        (before (py_print ''ASSIGNING WAREHOUSE TO INTEGRATION'')
        (before (py_print (replicate 60 (CHR ''='')))
        (andthen (assign_warehouse_to_integration cfg w byos_id (WAREHOUSE_NAME cfg) None)
           (\<lambda>_. ret ()))))
       else
         py_print ''Error: Could not extract BYOS integration ID from response''))
     else if WAREHOUSE_NAME cfg = [] then
       py_print ''\<newline>No WAREHOUSE_NAME configured - skipping warehouse assignment.''
     else ret ()))))"

definition main :: "config \<Rightarrow> world \<Rightarrow> unit run" where
  "main cfg w = andthen (obtain_account_id cfg w) (provision cfg w)"

section \<open>Vocabulary of the properties\<close>

text \<open>The events of a part of a run, put in front of the events of what follows.\<close>

definition emit :: "event list \<Rightarrow> 'a run \<Rightarrow> 'a run" where
  "emit es m = (fst m, es @ snd m)"

definition uncaught :: "'a run \<Rightarrow> bool" where
  "uncaught m = (case fst m of Raise _ \<Rightarrow> True | _ \<Rightarrow> False)"

text \<open>The value found in a JSON document by following keys from the root.\<close>

fun lookup_path :: "pyval \<Rightarrow> string list \<Rightarrow> pyval option" where
  "lookup_path v [] = Some v"
| "lookup_path (PDict kvs) (k # ks) =
     (case map_of kvs k of None \<Rightarrow> None | Some v \<Rightarrow> lookup_path v ks)"
| "lookup_path _ (k # ks) = None"

fun is_dict :: "pyval \<Rightarrow> bool" where
  "is_dict (PDict kvs) = True"
| "is_dict _ = False"

text \<open>A field of a warehouse descriptor, \<^verbatim>\<open>None\<close> when the descriptor does not have it.\<close>

definition descriptor_field :: "pyval \<Rightarrow> string \<Rightarrow> pyval" where
  "descriptor_field d k = (case py_get d k of Inl _ \<Rightarrow> PNone | Inr v \<Rightarrow> v)"

text \<open>
  The account payload with a given text in the place of the private key, and the request
  that carries it.
\<close>

definition account_payload :: "config \<Rightarrow> string \<Rightarrow> pyval" where
  "account_payload cfg private_key =
     PDict [(''name'', PStr (ACCOUNT_NAME cfg)),
            (''displayName'', PStr (DISPLAY_NAME cfg)),
            (''dataProviderType'', PStr ''snowflakekeypairauthentication''),
            (''configurations'', PDict
               [(''account'', PStr (SNOWFLAKE_ACCOUNT cfg)),
                (''username'', PStr (SNOWFLAKE_USERNAME cfg)),
                (''privateKey'', PStr private_key),
                (''passPhrase'', PStr (PASSPHRASE cfg)),
                (''role'', PStr (SNOWFLAKE_ROLE cfg))])]"

definition account_request :: "config \<Rightarrow> world \<Rightarrow> string \<Rightarrow> request" where
  "account_request cfg w private_key =
     \<lparr>req_method = POST, req_url = account_url cfg, req_headers = headers w,
      req_data = Some (account_payload cfg private_key)\<rparr>"

definition account_prologue :: "config \<Rightarrow> world \<Rightarrow> event list" where
  "account_prologue cfg w =
     [Print (py_str (case access_token w of None \<Rightarrow> PNone | Some t \<Rightarrow> PStr t)),
      Print (''Creating Snowflake account '' @ [CHR 0x27] @ DISPLAY_NAME cfg @ [CHR 0x27]
             @ '' on '' @ INSTANCE cfg @ ''...''),
      Print (''URL: '' @ account_url cfg),
      Print ''Payload (private key truncated):'',
      PrintJson (account_payload cfg ''[PRIVATE KEY CONTENTS HIDDEN]'')]"

definition account_epilogue :: "response \<Rightarrow> event list" where
  "account_epilogue r =
     [Print (''\<newline>Status Code: '' @ dec_int (status_code r)),
      Print (if status_code r = 200 \<or> status_code r = 201
             then ''Success! Account created.'' else ''Error creating account:''),
      Print (resp_text r)]"

text \<open>The integration request the main block sends for an account identifier.\<close>

definition default_friendly_name :: "config \<Rightarrow> string" where
  "default_friendly_name cfg =
     (if INTEGRATION_FRIENDLY_NAME cfg \<noteq> [] then INTEGRATION_FRIENDLY_NAME cfg
      else DISPLAY_NAME cfg)"

definition byos_request :: "config \<Rightarrow> world \<Rightarrow> pyval \<Rightarrow> request" where
  "byos_request cfg w account_id =
     \<lparr>req_method = POST, req_url = byos_url cfg, req_headers = headers w,
      req_data = Some (byos_payload (default_friendly_name cfg) (INTEGRATION_DESCRIPTION cfg)
                         account_id)\<rparr>"

definition byos_prologue :: "config \<Rightarrow> pyval \<Rightarrow> event list" where
  "byos_prologue cfg account_id =
     [Print (''\<newline>Creating BYOS integration '' @ [CHR 0x27] @ default_friendly_name cfg
             @ [CHR 0x27] @ '' on '' @ INSTANCE cfg @ ''...''),
      Print (''URL: '' @ byos_url cfg),
      Print ''Payload:'',
      PrintJson (byos_payload (default_friendly_name cfg) (INTEGRATION_DESCRIPTION cfg)
                   account_id)]"

definition byos_epilogue :: "response \<Rightarrow> event list" where
  "byos_epilogue r =
     [Print (''\<newline>Status Code: '' @ dec_int (status_code r)),
      Print (if status_code r = 200 \<or> status_code r = 201
             then ''Success! BYOS integration created.'' else ''Error creating BYOS integration:''),
      Print (resp_text r)]"

text \<open>The events of a warehouse listing up to the request, and up to the status line.\<close>

definition listing_start :: "config \<Rightarrow> world \<Rightarrow> pyval \<Rightarrow> event list" where
  "listing_start cfg w byos_id =
     [Print (''\<newline>Fetching available warehouses for BYOS integration '' @ [CHR 0x27]
             @ py_str byos_id @ [CHR 0x27] @ ''...''),
      Print (''URL: '' @ warehouses_url cfg byos_id),
      Http (list_request cfg w byos_id)]"

definition listing_prologue :: "config \<Rightarrow> world \<Rightarrow> pyval \<Rightarrow> response \<Rightarrow> event list" where
  "listing_prologue cfg w byos_id r =
     listing_start cfg w byos_id
     @ [Print (''\<newline>Status Code: '' @ dec_int (status_code r))]"

text \<open>The assignment request built from a descriptor.\<close>

definition assign_request :: "config \<Rightarrow> world \<Rightarrow> pyval \<Rightarrow> pyval \<Rightarrow> string list \<Rightarrow> request" where
  "assign_request cfg w byos_id d activities =
     \<lparr>req_method = PUT, req_url = warehouses_url cfg byos_id, req_headers = headers w,
      req_data = Some (assignment_payload
                         (descriptor_field d ''deviceName'')
                         (descriptor_field d ''warehouse'')
                         (descriptor_field d ''device'')
                         (descriptor_field d ''instanceSize'')
                         (descriptor_field d ''warehouseSizeFriendlyName'')
                         activities)\<rparr>"

text \<open>
  The account stage ends the process: no identifier is supplied, and a required setting is
  empty, the key file cannot be read, the account request is answered with a status other
  than 200 and 201, or it is answered with a body whose \<^verbatim>\<open>id\<close> is missing or false.
\<close>

definition account_stage_fails :: "config \<Rightarrow> world \<Rightarrow> bool" where
  "account_stage_fails cfg w =
     (EXISTING_ACCOUNT_ID cfg = [] \<and>
      (INSTANCE cfg = [] \<or> PRIVATE_KEY_FILE cfg = [] \<or>
       (case read_file w (PRIVATE_KEY_FILE cfg) of
          FileContents private_key \<Rightarrow>
            (case http w (account_request cfg w private_key) of
               Inl e \<Rightarrow> False
             | Inr r \<Rightarrow>
                 (if status_code r = 200 \<or> status_code r = 201
                  then (case resp_json r of
                          None \<Rightarrow> False
                        | Some j \<Rightarrow> (case py_get j ''id'' of Inl e \<Rightarrow> False | Inr v \<Rightarrow> \<not> truthy v))
                  else True))
        | _ \<Rightarrow> True)))"

text \<open>The events of the two ways an assignment ends after a successful listing.\<close>

definition not_found_events :: "string \<Rightarrow> pyval list \<Rightarrow> event list" where
  "not_found_events name whs =
     [Print (''\<newline>Error: Warehouse '' @ [CHR 0x27] @ name @ [CHR 0x27]
             @ '' not found in available warehouses.''),
      Print ''Available warehouses:'']
     @ map (\<lambda>d. Print (''  - '' @ py_str (descriptor_field d ''warehouse''))) whs"

definition assign_epilogue :: "response \<Rightarrow> event list" where
  "assign_epilogue r =
     [Print (''\<newline>Status Code: '' @ dec_int (status_code r)),
      Print (if status_code r = 200 \<or> status_code r = 201
             then ''Success! Warehouse assigned to integration.'' else ''Error assigning warehouse:''),
      Print (resp_text r)]"

definition found_events :: "config \<Rightarrow> world \<Rightarrow> pyval \<Rightarrow> string \<Rightarrow> pyval \<Rightarrow> string list \<Rightarrow> event list" where
  "found_events cfg w byos_id name d activities =
     [Print (''\<newline>Found matching warehouse: '' @ name),
      Print (''  Device: '' @ py_str (descriptor_field d ''device'')),
      Print (''  Size: '' @ py_str (descriptor_field d ''warehouseSizeFriendlyName'')),
      Print (''\<newline>Assigning warehouse '' @ [CHR 0x27] @ name @ [CHR 0x27]
             @ '' to BYOS integration...''),
      Print (''URL: '' @ warehouses_url cfg byos_id),
      Print ''Payload:'',
      PrintJson (assignment_payload
                         (descriptor_field d ''deviceName'')
                         (descriptor_field d ''warehouse'')
                         (descriptor_field d ''device'')
                         (descriptor_field d ''instanceSize'')
                         (descriptor_field d ''warehouseSizeFriendlyName'')
                         activities),
      Http (assign_request cfg w byos_id d activities)]"

section \<open>Example configurations and services\<close>

definition example_config :: config where
  "example_config =
     \<lparr>INSTANCE = ''acme.example.com'', ACCOUNT_NAME = ''acme_sf'', DISPLAY_NAME = ''Acme'',
      SNOWFLAKE_ACCOUNT = ''xy12345'', SNOWFLAKE_USERNAME = ''svc_domo'',
      SNOWFLAKE_ROLE = ''SYSADMIN'', PRIVATE_KEY_FILE = ''/keys/rsa_key.p8'', PASSPHRASE = '''',
      INTEGRATION_FRIENDLY_NAME = '''', INTEGRATION_DESCRIPTION = '''',
      WAREHOUSE_NAME = ''WH_SMALL'', WAREHOUSE_ACTIVITIES = [''query'', ''index'', ''dataflow''],
      EXISTING_ACCOUNT_ID = ''''\<rparr>"

definition example_world :: "response \<Rightarrow> response \<Rightarrow> response \<Rightarrow> response \<Rightarrow> world" where
  "example_world account_answer byos_answer listing_answer assign_answer =
     \<lparr>access_token = Some ''token'',
      read_file = (\<lambda>p. if p = ''/keys/rsa_key.p8'' then FileContents ''KEY-MATERIAL''
                        else FileNotFoundError),
      http = (\<lambda>rq. Inr (case req_method rq of
                            GET \<Rightarrow> listing_answer
                          | PUT \<Rightarrow> assign_answer
                          | POST \<Rightarrow> if req_url rq = ''https://acme.example.com/api/data/v1/accounts''
                                     then account_answer else byos_answer))\<rparr>"

definition answer :: "int \<Rightarrow> pyval \<Rightarrow> response" where
  "answer code body = \<lparr>status_code = code, resp_text = ''body'', resp_json = Some body\<rparr>"

definition wh_large :: pyval where
  "wh_large = PDict [(''warehouse'', PStr ''WH_LARGE''), (''device'', PStr ''dev-0''),
                     (''deviceName'', PStr ''Large''), (''instanceSize'', PStr ''L''),
                     (''warehouseSizeFriendlyName'', PStr ''Large'')]"

definition wh_small_first :: pyval where
  "wh_small_first = PDict [(''warehouse'', PStr ''WH_SMALL''), (''device'', PStr ''dev-1''),
                     (''deviceName'', PStr ''Small one''), (''instanceSize'', PStr ''XS''),
                     (''warehouseSizeFriendlyName'', PStr ''X-Small'')]"

definition wh_small_second :: pyval where
  "wh_small_second = PDict [(''warehouse'', PStr ''WH_SMALL''), (''device'', PStr ''dev-2''),
                     (''deviceName'', PStr ''Small two''), (''instanceSize'', PStr ''S''),
                     (''warehouseSizeFriendlyName'', PStr ''Small'')]"

definition wh_nameless :: pyval where
  "wh_nameless = PDict [(''device'', PStr ''dev-9'')]"

definition duplicates_service :: world where
  "duplicates_service =
     example_world (answer 200 PNone) (answer 200 PNone)
       (answer 200 (PList [wh_large, wh_small_first, wh_small_second])) (answer 200 PNone)"

definition refusing_service :: world where
  "refusing_service =
     example_world (answer 200 PNone) (answer 200 PNone)
       (answer 200 (PList [wh_large, wh_small_first])) (answer 500 PNone)"

definition other_names_service :: world where
  "other_names_service =
     example_world (answer 200 PNone) (answer 200 PNone)
       (answer 200 (PList [wh_large, wh_nameless])) (answer 200 PNone)"

definition listing_down_service :: world where
  "listing_down_service =
     example_world (answer 200 PNone) (answer 200 PNone) (answer 503 PNone) (answer 200 PNone)"

definition only_large_service :: world where
  "only_large_service =
     example_world (answer 200 PNone) (answer 200 PNone) (answer 200 (PList [wh_large]))
       (answer 200 PNone)"

lemmas example_defs = example_config_def example_world_def answer_def wh_large_def
  wh_small_first_def wh_small_second_def wh_nameless_def

text \<open>A run that never calls \<^verbatim>\<open>exit\<close> and whose requests all satisfy a predicate.\<close>

definition confined :: "(request \<Rightarrow> bool) \<Rightarrow> 'a run \<Rightarrow> bool" where
  "confined P m = ((\<forall>n. fst m \<noteq> Exit n) \<and> list_all P (requests_of (snd m)))"

definition existing_config :: config where
  "existing_config = example_config\<lparr>EXISTING_ACCOUNT_ID := ''4711'', WAREHOUSE_NAME := ''''\<rparr>"

definition failing_service :: world where
  "failing_service = example_world (answer 500 PNone) (answer 500 PNone) (answer 500 PNone)
                       (answer 500 PNone)"

definition healthy_service :: world where
  "healthy_service =
     example_world (answer 200 (PDict [(''id'', PInt 12)])) (answer 201 (PDict [(''id'', PStr ''b1'')]))
       (answer 200 (PList [wh_large, wh_small_first])) (answer 200 PNone)"

definition no_warehouse_config :: config where
  "no_warehouse_config = example_config\<lparr>WAREHOUSE_NAME := ''''\<rparr>"

definition supplied_config :: config where
  "supplied_config = example_config\<lparr>EXISTING_ACCOUNT_ID := ''4711''\<rparr>"

definition integration_down_service :: world where
  "integration_down_service =
     example_world (answer 200 (PDict [(''id'', PInt 12)])) (answer 500 PNone)
       (answer 200 (PList [wh_large, wh_small_first])) (answer 200 PNone)"

definition accepted_without_id_service :: world where
  "accepted_without_id_service =
     example_world (answer 202 (PDict [])) (answer 201 (PDict [(''id'', PStr ''b1'')]))
       (answer 200 (PList [wh_large, wh_small_first])) (answer 200 PNone)"

definition id_missing_service :: world where
  "id_missing_service =
     example_world (answer 200 (PDict [(''name'', PStr ''acme_sf'')]))
       (answer 201 (PDict [(''id'', PStr ''b1'')]))
       (answer 200 (PList [wh_large, wh_small_first])) (answer 200 PNone)"

text \<open>What a run writes to standard output, and the JSON documents among it.\<close>

definition printed :: "event list \<Rightarrow> event list" where
  "printed es = filter (\<lambda>e. case e of Http rq \<Rightarrow> False | _ \<Rightarrow> True) es"

definition json_printed :: "event list \<Rightarrow> pyval list" where
  "json_printed es = concat (map (\<lambda>e. case e of PrintJson v \<Rightarrow> [v] | _ \<Rightarrow> []) es)"

definition echoing_service :: world where
  "echoing_service =
     example_world \<lparr>status_code = 200, resp_text = ''KEY-MATERIAL'',
                     resp_json = Some (PDict [(''id'', PInt 12)])\<rparr>
       (answer 201 (PDict [(''id'', PStr ''b1'')]))
       (answer 200 (PList [wh_large, wh_small_first])) (answer 200 PNone)"

definition other_key_service :: world where
  "other_key_service = healthy_service\<lparr>read_file := (\<lambda>p. FileContents ''OTHER-KEY'')\<rparr>"

text \<open>\<^verbatim>\<open>"warehouse" in d\<close>: the descriptor is a JSON object with the key \<^verbatim>\<open>warehouse\<close>.\<close>

definition has_warehouse_key :: "pyval \<Rightarrow> bool" where
  "has_warehouse_key d =
     (case d of PDict kvs \<Rightarrow> map_of kvs ''warehouse'' \<noteq> None | _ \<Rightarrow> False)"

definition nameless_first_service :: world where
  "nameless_first_service =
     example_world (answer 200 PNone) (answer 200 PNone)
       (answer 200 (PList [wh_nameless, wh_small_first])) (answer 200 PNone)"

section \<open>How runs compose\<close>

lemma emit_pair [simp]: "emit es (r, es') = (r, es @ es')"
  by (simp add: emit_def)

lemma emit_nil [simp]: "emit [] m = m"
  by (simp add: emit_def)

lemma emit_emit [simp]: "emit es (emit es' m) = emit (es @ es') m"
  by (simp add: emit_def)

lemma fst_emit [simp]: "fst (emit es m) = fst m"
  by (simp add: emit_def)

lemma snd_emit [simp]: "snd (emit es m) = es @ snd m"
  by (simp add: emit_def)

lemma andthen_Ret [simp]: "andthen (Ret a, es) f = emit es (f a)"
  by (simp add: andthen_def emit_def)

lemma andthen_Exit [simp]: "andthen (Exit n, es) f = (Exit n, es)"
  by (simp add: andthen_def)

lemma andthen_Raise [simp]: "andthen (Raise e, es) f = (Raise e, es)"
  by (simp add: andthen_def)

lemma andthen_emit [simp]: "andthen (emit es m) f = emit es (andthen m f)"
  by (cases m; cases "fst m") (auto simp: andthen_def emit_def)

lemma before_Ret [simp]: "before (Ret u, es) n = emit es n"
  by (simp add: before_def)

lemma before_emit [simp]: "before (emit es m) n = emit es (before m n)"
  by (simp add: before_def)

lemma before_Exit [simp]: "before (Exit k, es) n = (Exit k, es)"
  by (simp add: before_def)

lemma before_Raise [simp]: "before (Raise e, es) n = (Raise e, es)"
  by (simp add: before_def)

lemmas run_defs = ret_def py_exit_def py_print_def print_json_def lift_exc_def send_def
  json_of_def get_field_def

lemma requests_of_Nil [simp]: "requests_of [] = []"
  by (simp add: requests_of_def)

lemma requests_of_Print [simp]: "requests_of (Print s # es) = requests_of es"
  by (simp add: requests_of_def)

lemma requests_of_PrintJson [simp]: "requests_of (PrintJson v # es) = requests_of es"
  by (simp add: requests_of_def)

lemma requests_of_Http [simp]: "requests_of (Http rq # es) = rq # requests_of es"
  by (simp add: requests_of_def)

lemma requests_of_append [simp]: "requests_of (es @ es') = requests_of es @ requests_of es'"
  by (simp add: requests_of_def)

lemma create_snowflake_account_sends:
  assumes "INSTANCE cfg \<noteq> []" "PRIVATE_KEY_FILE cfg \<noteq> []"
    and "read_file w (PRIVATE_KEY_FILE cfg) = FileContents key"
  shows "create_snowflake_account cfg w =
     (case http w (account_request cfg w key) of
        Inl e \<Rightarrow> (Raise e, account_prologue cfg w @ [Http (account_request cfg w key)])
      | Inr r \<Rightarrow> (Ret r, account_prologue cfg w @ [Http (account_request cfg w key)]
                        @ account_epilogue r))"
  using assms
  by (simp add: create_snowflake_account_def get_private_key_contents_def run_defs
      dict_new_def dict_copy_def dict_getitem_def dict_setitem_def dumps_def
      account_request_def account_payload_def account_prologue_def account_epilogue_def
      Let_def split: sum.splits)

lemma create_snowflake_account_refuses:
  assumes "INSTANCE cfg = [] \<or> PRIVATE_KEY_FILE cfg = []
           \<or> (\<forall>key. read_file w (PRIVATE_KEY_FILE cfg) \<noteq> FileContents key)"
  shows "fst (create_snowflake_account cfg w) = Exit 1
         \<and> requests_of (snd (create_snowflake_account cfg w)) = []"
  using assms
  by (cases "read_file w (PRIVATE_KEY_FILE cfg)")
     (auto simp: create_snowflake_account_def get_private_key_contents_def run_defs)

lemma create_byos_integration_sends:
  "create_byos_integration cfg w account_id None [] =
     (case http w (byos_request cfg w account_id) of
        Inl e \<Rightarrow> (Raise e, byos_prologue cfg account_id @ [Http (byos_request cfg w account_id)])
      | Inr r \<Rightarrow> (Ret r, byos_prologue cfg account_id @ [Http (byos_request cfg w account_id)]
                        @ byos_epilogue r))"
  by (simp add: create_byos_integration_def run_defs byos_request_def byos_prologue_def
      byos_epilogue_def default_friendly_name_def Let_def split: sum.splits)

lemma get_available_warehouses_eq:
  "get_available_warehouses cfg w byos_id =
     (case http w (list_request cfg w byos_id) of
        Inl e \<Rightarrow> (Raise e, listing_start cfg w byos_id)
      | Inr r \<Rightarrow>
          emit (listing_prologue cfg w byos_id r)
            (if status_code r = 200 then
               (case resp_json r of
                  None \<Rightarrow> (Raise JSONDecodeError, [])
                | Some j \<Rightarrow>
                    (case py_len j of
                       Inl e \<Rightarrow> (Raise e, [])
                     | Inr n \<Rightarrow> (Ret (Some j), [Print (''Found '' @ dec_nat n @ '' available warehouses'')])))
             else (Ret None, [Print ''Error fetching warehouses:'', Print (resp_text r)])))"
  by (simp add: get_available_warehouses_def run_defs listing_prologue_def listing_start_def
      split: sum.splits option.splits)

lemma find_matching_first:
  assumes "\<forall>d \<in> set pre. \<exists>v. py_get d ''warehouse'' = Inr v \<and> v \<noteq> PStr name"
    and "py_get wh ''warehouse'' = Inr (PStr name)"
  shows "find_matching (pre @ wh # post) name = Inr (Some wh)"
  using assms by (induction pre) auto

lemma find_matching_none:
  assumes "\<forall>d \<in> set whs. \<exists>v. py_get d ''warehouse'' = Inr v \<and> v \<noteq> PStr name"
  shows "find_matching whs name = Inr None"
  using assms by (induction whs) auto

lemma print_available_eq:
  assumes "\<forall>d \<in> set whs. \<exists>v. py_get d ''warehouse'' = Inr v"
  shows "print_available whs =
           (Ret (), map (\<lambda>d. Print (''  - '' @ py_str (descriptor_field d ''warehouse''))) whs)"
  using assms
  by (induction whs) (auto simp: run_defs descriptor_field_def)

lemma assign_listing_fails:
  assumes "http w (list_request cfg w byos_id) = Inr r" "status_code r \<noteq> 200"
  shows "assign_warehouse_to_integration cfg w byos_id name acts =
           (Ret None, listing_prologue cfg w byos_id r
              @ [Print ''Error fetching warehouses:'', Print (resp_text r),
                 Print ''Error: Could not retrieve available warehouses''])"
  using assms
  by (simp add: assign_warehouse_to_integration_def get_available_warehouses_eq run_defs)

lemma assign_not_found_eq:
  assumes "http w (list_request cfg w byos_id) = Inr r" "status_code r = 200"
    and "resp_json r = Some (PList whs)"
    and "\<forall>d \<in> set whs. \<exists>v. py_get d ''warehouse'' = Inr v \<and> v \<noteq> PStr name"
  shows "assign_warehouse_to_integration cfg w byos_id name acts =
           (Ret None, listing_prologue cfg w byos_id r
              @ [Print (''Found '' @ dec_nat (length whs) @ '' available warehouses'')]
              @ not_found_events name whs)"
proof -
  have p: "print_available whs =
           (Ret (), map (\<lambda>d. Print (''  - '' @ py_str (descriptor_field d ''warehouse''))) whs)"
    using assms(4) by (intro print_available_eq) blast
  show ?thesis
    using assms(1-3) find_matching_none [OF assms(4)] p
    by (simp add: assign_warehouse_to_integration_def get_available_warehouses_eq run_defs
        not_found_events_def)
qed

lemma assign_after_match:
  assumes "http w (list_request cfg w byos_id) = Inr r" "status_code r = 200"
    and "resp_json r = Some (PList whs)"
    and "find_matching whs name = Inr (Some (PDict kvs))"
  shows "assign_warehouse_to_integration cfg w byos_id name acts =
     emit (listing_prologue cfg w byos_id r
           @ [Print (''Found '' @ dec_nat (length whs) @ '' available warehouses'')]
           @ found_events cfg w byos_id name (PDict kvs)
               (case acts of None \<Rightarrow> WAREHOUSE_ACTIVITIES cfg | Some a \<Rightarrow> a))
       (case http w (assign_request cfg w byos_id (PDict kvs)
                      (case acts of None \<Rightarrow> WAREHOUSE_ACTIVITIES cfg | Some a \<Rightarrow> a)) of
           Inl e \<Rightarrow> (Raise e, [])
         | Inr r' \<Rightarrow> (Ret (Some r'), assign_epilogue r'))"
proof (cases "http w (assign_request cfg w byos_id (PDict kvs)
                      (case acts of None \<Rightarrow> WAREHOUSE_ACTIVITIES cfg | Some a \<Rightarrow> a))")
  case (Inl e)
  then show ?thesis
    using assms
    by (simp add: assign_warehouse_to_integration_def get_available_warehouses_eq run_defs
        found_events_def assign_request_def descriptor_field_def Let_def)
next
  case (Inr r')
  then show ?thesis
    using assms
    by (simp add: assign_warehouse_to_integration_def get_available_warehouses_eq run_defs
        found_events_def assign_epilogue_def assign_request_def descriptor_field_def Let_def)
qed

section \<open>Warehouse selection\<close>

text \<open>
  Claim C2. When the listing answers 200 with a list in which \<open>wh\<close> is the first descriptor
  whose \<^verbatim>\<open>warehouse\<close> field equals the requested name, the scan of
  \<^verbatim>\<open>assign_warehouse_to_integration\<close> returns \<open>wh\<close>, whatever follows it in the list
  (later descriptors with the same name included), and the assignment request is the one
  built from \<open>wh\<close>.
\<close>

theorem assign_selects_first_match:
  assumes "http w (list_request cfg w byos_id) = Inr r" and "status_code r = 200"
    and "resp_json r = Some (PList (pre @ wh # post))"
    and "\<forall>d \<in> set pre. \<exists>v. py_get d ''warehouse'' = Inr v \<and> v \<noteq> PStr name"
    and "py_get wh ''warehouse'' = Inr (PStr name)"
  shows "find_matching (pre @ wh # post) name = Inr (Some wh)
         \<and> requests_of (snd (assign_warehouse_to_integration cfg w byos_id name acts)) =
             [list_request cfg w byos_id,
              assign_request cfg w byos_id wh
                (case acts of None \<Rightarrow> WAREHOUSE_ACTIVITIES cfg | Some a \<Rightarrow> a)]"
proof -
  have found: "find_matching (pre @ wh # post) name = Inr (Some wh)"
    using assms(4,5) by (rule find_matching_first)
  obtain kvs where wh: "wh = PDict kvs"
    using assms(5) by (cases wh) auto
  have r3: "resp_json r = Some (PList (pre @ PDict kvs # post))"
    using assms(3) wh by simp
  have f: "find_matching (pre @ PDict kvs # post) name = Inr (Some (PDict kvs))"
    using found wh by simp
  have "requests_of (snd (assign_warehouse_to_integration cfg w byos_id name acts)) =
          [list_request cfg w byos_id,
           assign_request cfg w byos_id wh
             (case acts of None \<Rightarrow> WAREHOUSE_ACTIVITIES cfg | Some a \<Rightarrow> a)]"
    unfolding wh assign_after_match [OF assms(1,2) r3 f, of acts]
    by (simp add: listing_prologue_def listing_start_def found_events_def assign_epilogue_def
        split: sum.splits)
  with found show ?thesis by simp
qed

theorem assign_selects_first_match_witness:
  "http duplicates_service (list_request example_config duplicates_service (PStr ''b1''))
     = Inr (answer 200 (PList [wh_large, wh_small_first, wh_small_second]))
   \<and> py_get wh_large ''warehouse'' = Inr (PStr ''WH_LARGE'')
   \<and> py_get wh_small_first ''warehouse'' = Inr (PStr ''WH_SMALL'')
   \<and> py_get wh_small_second ''warehouse'' = Inr (PStr ''WH_SMALL'')
   \<and> find_matching [wh_large, wh_small_first, wh_small_second] ''WH_SMALL''
       = Inr (Some wh_small_first)
   \<and> requests_of (snd (assign_warehouse_to_integration example_config duplicates_service
                          (PStr ''b1'') ''WH_SMALL'' None))
       = [list_request example_config duplicates_service (PStr ''b1''),
          assign_request example_config duplicates_service (PStr ''b1'') wh_small_first
            [''query'', ''index'', ''dataflow'']]"
proof -
  have h1: "http duplicates_service (list_request example_config duplicates_service (PStr ''b1''))
         = Inr (answer 200 (PList [wh_large, wh_small_first, wh_small_second]))"
    by (simp add: duplicates_service_def example_world_def list_request_def)
  have h2: "status_code (answer 200 (PList [wh_large, wh_small_first, wh_small_second])) = 200"
    by (simp add: answer_def)
  have h3: "resp_json (answer 200 (PList [wh_large, wh_small_first, wh_small_second]))
              = Some (PList ([wh_large] @ wh_small_first # [wh_small_second]))"
    by (simp add: answer_def)
  have h4: "\<forall>d \<in> set [wh_large]. \<exists>v. py_get d ''warehouse'' = Inr v \<and> v \<noteq> PStr ''WH_SMALL''"
    by (simp add: wh_large_def)
  have h5: "py_get wh_small_first ''warehouse'' = Inr (PStr ''WH_SMALL'')"
    by (simp add: wh_small_first_def)
  have h6: "py_get wh_small_second ''warehouse'' = Inr (PStr ''WH_SMALL'')"
    by (simp add: wh_small_second_def)
  have h7: "py_get wh_large ''warehouse'' = Inr (PStr ''WH_LARGE'')"
    by (simp add: wh_large_def)
  show ?thesis
    using assign_selects_first_match [OF h1 h2 h3 h4 h5, of None] h1 h5 h6 h7
    by (simp add: example_config_def)
qed

text \<open>
  Claim C8. For the descriptor the scan returns, the body of the assignment request is a
  one-element list whose \<^verbatim>\<open>deviceName\<close>, \<^verbatim>\<open>warehouse\<close>, \<^verbatim>\<open>device\<close>,
  \<^verbatim>\<open>instanceSize\<close> and \<^verbatim>\<open>warehouseSizeFriendlyName\<close> are the descriptor's own values
  (\<^verbatim>\<open>None\<close> for a field it does not have), and whose \<^verbatim>\<open>activities\<close> are the caller's,
  or the configured ones when the caller gives none.
\<close>

theorem assignment_payload_copies_descriptor:
  assumes "http w (list_request cfg w byos_id) = Inr r" and "status_code r = 200"
    and "resp_json r = Some (PList whs)"
    and "find_matching whs name = Inr (Some (PDict kvs))"
  shows "map req_method (requests_of (snd (assign_warehouse_to_integration cfg w byos_id name acts)))
           = [GET, PUT]
         \<and> map req_data (requests_of (snd (assign_warehouse_to_integration cfg w byos_id name acts)))
           = [None,
              Some (PList [PDict
                [(''deviceName'', case map_of kvs ''deviceName'' of None \<Rightarrow> PNone | Some v \<Rightarrow> v),
                 (''warehouse'', case map_of kvs ''warehouse'' of None \<Rightarrow> PNone | Some v \<Rightarrow> v),
                 (''device'', case map_of kvs ''device'' of None \<Rightarrow> PNone | Some v \<Rightarrow> v),
                 (''instanceSize'', case map_of kvs ''instanceSize'' of None \<Rightarrow> PNone | Some v \<Rightarrow> v),
                 (''warehouseSizeFriendlyName'',
                    case map_of kvs ''warehouseSizeFriendlyName'' of None \<Rightarrow> PNone | Some v \<Rightarrow> v),
                 (''activities'',
                    PList (map PStr (case acts of None \<Rightarrow> WAREHOUSE_ACTIVITIES cfg
                                     | Some a \<Rightarrow> a)))]])]"
  unfolding assign_after_match [OF assms, of acts]
  by (simp add: listing_prologue_def listing_start_def found_events_def assign_epilogue_def
      assign_request_def list_request_def assignment_payload_def descriptor_field_def
      split: sum.splits)

theorem assignment_payload_copies_descriptor_witness:
  "http refusing_service (list_request example_config refusing_service (PInt 7))
     = Inr (answer 200 (PList [wh_large, wh_small_first]))
   \<and> find_matching [wh_large, wh_small_first] ''WH_SMALL'' = Inr (Some wh_small_first)
   \<and> map req_data (requests_of (snd (assign_warehouse_to_integration example_config
                                        refusing_service (PInt 7) ''WH_SMALL'' (Some [''query'']))))
       = [None,
          Some (PList [PDict
            [(''deviceName'', PStr ''Small one''),
             (''warehouse'', PStr ''WH_SMALL''),
             (''device'', PStr ''dev-1''),
             (''instanceSize'', PStr ''XS''),
             (''warehouseSizeFriendlyName'', PStr ''X-Small''),
             (''activities'', PList [PStr ''query''])]])]"
proof -
  have h1: "http refusing_service (list_request example_config refusing_service (PInt 7))
         = Inr (answer 200 (PList [wh_large, wh_small_first]))"
    by (simp add: refusing_service_def example_world_def list_request_def)
  have h2: "status_code (answer 200 (PList [wh_large, wh_small_first])) = 200"
    by (simp add: answer_def)
  have h3: "resp_json (answer 200 (PList [wh_large, wh_small_first]))
              = Some (PList [wh_large, wh_small_first])"
    by (simp add: answer_def)
  have h4: "find_matching [wh_large, wh_small_first] ''WH_SMALL'' =
              Inr (Some (PDict [(''warehouse'', PStr ''WH_SMALL''), (''device'', PStr ''dev-1''),
                     (''deviceName'', PStr ''Small one''), (''instanceSize'', PStr ''XS''),
                     (''warehouseSizeFriendlyName'', PStr ''X-Small'')]))"
    by (simp add: wh_large_def wh_small_first_def)
  show ?thesis
    using assignment_payload_copies_descriptor [OF h1 h2 h3 h4, of "Some [''query'']"] h1 h4
    by (simp add: wh_small_first_def)
qed

text \<open>
  Claim C5. When the listing answers 200 with a list in which no descriptor's
  \<^verbatim>\<open>warehouse\<close> field equals the requested name, the listing request is the only request
  (no PUT), the function returns \<^verbatim>\<open>None\<close>, and after the error line and the line
  \<^verbatim>\<open>Available warehouses:\<close> it prints one line for every descriptor of the listing, in
  order, holding that descriptor's \<^verbatim>\<open>warehouse\<close> field.
\<close>

theorem assign_not_found:
  assumes "http w (list_request cfg w byos_id) = Inr r" and "status_code r = 200"
    and "resp_json r = Some (PList whs)"
    and "\<forall>d \<in> set whs. \<exists>v. py_get d ''warehouse'' = Inr v \<and> v \<noteq> PStr name"
  shows "requests_of (snd (assign_warehouse_to_integration cfg w byos_id name acts))
           = [list_request cfg w byos_id]
         \<and> fst (assign_warehouse_to_integration cfg w byos_id name acts) = Ret None
         \<and> snd (assign_warehouse_to_integration cfg w byos_id name acts)
           = listing_prologue cfg w byos_id r
             @ [Print (''Found '' @ dec_nat (length whs) @ '' available warehouses''),
                Print (''\<newline>Error: Warehouse '' @ [CHR 0x27] @ name @ [CHR 0x27]
                       @ '' not found in available warehouses.''),
                Print ''Available warehouses:'']
             @ map (\<lambda>d. Print (''  - '' @ py_str (descriptor_field d ''warehouse''))) whs"
  unfolding assign_not_found_eq [OF assms, of acts]
  by (simp add: listing_prologue_def listing_start_def not_found_events_def requests_of_def)

theorem assign_not_found_witness:
  "http other_names_service (list_request example_config other_names_service (PInt 7))
     = Inr (answer 200 (PList [wh_large, wh_nameless]))
   \<and> py_get wh_large ''warehouse'' = Inr (PStr ''WH_LARGE'')
   \<and> py_get wh_nameless ''warehouse'' = Inr PNone
   \<and> requests_of (snd (assign_warehouse_to_integration example_config other_names_service
                          (PInt 7) ''WH_SMALL'' None))
       = [list_request example_config other_names_service (PInt 7)]
   \<and> drop 5 (snd (assign_warehouse_to_integration example_config other_names_service (PInt 7)
                     ''WH_SMALL'' None))
       = [Print (''\<newline>Error: Warehouse '' @ [CHR 0x27] @ ''WH_SMALL'' @ [CHR 0x27]
                   @ '' not found in available warehouses.''),
          Print ''Available warehouses:'',
          Print ''  - WH_LARGE'',
          Print ''  - None'']"
proof -
  have h1: "http other_names_service (list_request example_config other_names_service (PInt 7))
         = Inr (answer 200 (PList [wh_large, wh_nameless]))"
    by (simp add: other_names_service_def example_world_def list_request_def)
  have h2: "status_code (answer 200 (PList [wh_large, wh_nameless])) = 200"
    by (simp add: answer_def)
  have h3: "resp_json (answer 200 (PList [wh_large, wh_nameless]))
              = Some (PList [wh_large, wh_nameless])"
    by (simp add: answer_def)
  have h4: "\<forall>d \<in> set [wh_large, wh_nameless].
            \<exists>v. py_get d ''warehouse'' = Inr v \<and> v \<noteq> PStr ''WH_SMALL''"
    by (simp add: wh_large_def wh_nameless_def)
  have h5: "py_get wh_large ''warehouse'' = Inr (PStr ''WH_LARGE'')"
    by (simp add: wh_large_def)
  have h6: "py_get wh_nameless ''warehouse'' = Inr PNone"
    by (simp add: wh_nameless_def)
  show ?thesis
    using assign_not_found [OF h1 h2 h3 h4, of None] h1 h5 h6
    by (simp add: listing_prologue_def listing_start_def descriptor_field_def
        wh_large_def wh_nameless_def)
qed

text \<open>
  Claim C9. \<^verbatim>\<open>assign_warehouse_to_integration\<close> returns \<^verbatim>\<open>None\<close> when the listing is
  answered with a status other than 200, and it returns \<^verbatim>\<open>None\<close> when the listing is
  answered 200 with a list in which no descriptor matches the name: the two returned
  values are equal.
\<close>

theorem assign_none_on_failure_and_on_not_found:
  assumes "http w1 (list_request cfg w1 byos_id) = Inr r1" and "status_code r1 \<noteq> 200"
    and "http w2 (list_request cfg w2 byos_id) = Inr r2" and "status_code r2 = 200"
    and "resp_json r2 = Some (PList whs)"
    and "\<forall>d \<in> set whs. \<exists>v. py_get d ''warehouse'' = Inr v \<and> v \<noteq> PStr name"
  shows "fst (assign_warehouse_to_integration cfg w1 byos_id name acts) = Ret None
         \<and> fst (assign_warehouse_to_integration cfg w2 byos_id name acts) = Ret None
         \<and> fst (get_available_warehouses cfg w1 byos_id) = Ret None
         \<and> fst (get_available_warehouses cfg w2 byos_id) = Ret (Some (PList whs))"
  using assms(1,2,3,4,5)
  unfolding assign_listing_fails [OF assms(1,2), of name acts]
    assign_not_found_eq [OF assms(3,4,5,6), of acts]
  by (simp add: get_available_warehouses_eq)

theorem assign_none_on_failure_and_on_not_found_witness:
  "http listing_down_service (list_request example_config listing_down_service (PInt 7))
     = Inr (answer 503 PNone)
   \<and> http only_large_service (list_request example_config only_large_service (PInt 7))
     = Inr (answer 200 (PList [wh_large]))
   \<and> py_get wh_large ''warehouse'' = Inr (PStr ''WH_LARGE'')
   \<and> fst (assign_warehouse_to_integration example_config listing_down_service (PInt 7)
             ''WH_SMALL'' None) = Ret None
   \<and> fst (assign_warehouse_to_integration example_config only_large_service (PInt 7)
             ''WH_SMALL'' None) = Ret None"
proof -
  have a1: "http listing_down_service (list_request example_config listing_down_service (PInt 7))
              = Inr (answer 503 PNone)"
    by (simp add: listing_down_service_def example_world_def list_request_def)
  have a2: "status_code (answer 503 PNone) \<noteq> 200"
    by (simp add: answer_def)
  have b1: "http only_large_service (list_request example_config only_large_service (PInt 7))
              = Inr (answer 200 (PList [wh_large]))"
    by (simp add: only_large_service_def example_world_def list_request_def)
  have b2: "status_code (answer 200 (PList [wh_large])) = 200"
    by (simp add: answer_def)
  have b3: "resp_json (answer 200 (PList [wh_large])) = Some (PList [wh_large])"
    by (simp add: answer_def)
  have b4: "\<forall>d \<in> set [wh_large]. \<exists>v. py_get d ''warehouse'' = Inr v \<and> v \<noteq> PStr ''WH_SMALL''"
    by (simp add: wh_large_def)
  have b5: "py_get wh_large ''warehouse'' = Inr (PStr ''WH_LARGE'')"
    by (simp add: wh_large_def)
  show ?thesis
    using assign_none_on_failure_and_on_not_found [OF a1 a2 b1 b2 b3 b4, of None] a1 b1 b5
    by simp
qed

lemma py_get_descriptor_field: "is_dict d \<Longrightarrow> py_get d k = Inr (descriptor_field d k)"
  by (cases d) (simp_all add: descriptor_field_def)

lemma find_matching_find:
  assumes "\<forall>d \<in> set whs. is_dict d"
  shows "find_matching whs name
           = Inr (find (\<lambda>d. descriptor_field d ''warehouse'' = PStr name) whs)"
  using assms by (induction whs) (simp_all add: py_get_descriptor_field)

lemma find_filter_implied:
  assumes "\<And>x. P x \<Longrightarrow> Q x"
  shows "find P (filter Q xs) = find P xs"
  using assms by (induction xs) auto

lemma named_when_matching:
  "descriptor_field d ''warehouse'' = PStr name \<Longrightarrow> has_warehouse_key d"
  by (cases d) (auto simp: descriptor_field_def has_warehouse_key_def split: option.splits)

lemma find_among_named:
  "find (\<lambda>d. descriptor_field d ''warehouse'' = PStr name) (filter has_warehouse_key whs)
     = find (\<lambda>d. descriptor_field d ''warehouse'' = PStr name) whs"
  by (rule find_filter_implied) (rule named_when_matching)

lemma nameless_line:
  "py_str (descriptor_field d ''warehouse'')
     = (if has_warehouse_key d then py_str (descriptor_field d ''warehouse'') else ''None'')"
  by (cases d) (auto simp: descriptor_field_def has_warehouse_key_def split: option.splits)

text \<open>
  Claim C10. When the listing is answered 200 with a list of JSON objects,
  \<^verbatim>\<open>assign_warehouse_to_integration\<close> behaves as if the objects without the
  \<^verbatim>\<open>warehouse\<close> key were not there for the match: the scan returns the first object
  with that key whose \<^verbatim>\<open>warehouse\<close> field equals the requested name, wherever the
  objects without the key stand in the list. The scan raises nothing: when there is such
  an object the assignment is built from it and only the PUT request decides how the call
  ends, and when there is none the call returns \<^verbatim>\<open>None\<close> after an enumeration of the
  whole listing in which every object without the key is the line \<^verbatim>\<open>  - None\<close>.
\<close>

theorem assign_skips_descriptors_without_name:
  assumes "http w (list_request cfg w byos_id) = Inr r" and "status_code r = 200"
    and "resp_json r = Some (PList whs)"
    and "\<forall>d \<in> set whs. is_dict d"
  shows "find_matching whs name
           = Inr (find (\<lambda>d. descriptor_field d ''warehouse'' = PStr name)
                    (filter has_warehouse_key whs))
         \<and> assign_warehouse_to_integration cfg w byos_id name acts
           = (case find (\<lambda>d. descriptor_field d ''warehouse'' = PStr name)
                     (filter has_warehouse_key whs) of
                None \<Rightarrow>
                  (Ret None,
                   listing_prologue cfg w byos_id r
                   @ [Print (''Found '' @ dec_nat (length whs) @ '' available warehouses''),
                      Print (''\<newline>Error: Warehouse '' @ [CHR 0x27] @ name @ [CHR 0x27]
                             @ '' not found in available warehouses.''),
                      Print ''Available warehouses:'']
                   @ map (\<lambda>d. Print (''  - '' @ (if has_warehouse_key d
                                                  then py_str (descriptor_field d ''warehouse'')
                                                  else ''None''))) whs)
              | Some d \<Rightarrow>
                  emit (listing_prologue cfg w byos_id r
                        @ [Print (''Found '' @ dec_nat (length whs) @ '' available warehouses'')]
                        @ found_events cfg w byos_id name d
                            (case acts of None \<Rightarrow> WAREHOUSE_ACTIVITIES cfg | Some a \<Rightarrow> a))
                    (case http w (assign_request cfg w byos_id d
                                   (case acts of None \<Rightarrow> WAREHOUSE_ACTIVITIES cfg | Some a \<Rightarrow> a)) of
                       Inl e \<Rightarrow> (Raise e, [])
                     | Inr r' \<Rightarrow> (Ret (Some r'), assign_epilogue r')))"
proof -
  let ?P = "\<lambda>d. descriptor_field d ''warehouse'' = PStr name"
  have scan: "find_matching whs name = Inr (find ?P whs)"
    using assms(4) by (rule find_matching_find)
  have named: "find ?P (filter has_warehouse_key whs) = find ?P whs"
    by (rule find_among_named)
  show ?thesis
  proof (cases "find ?P whs")
    case None
    then have "\<forall>d \<in> set whs. \<not> ?P d"
      by (simp add: find_None_iff)
    then have "\<forall>d \<in> set whs. \<exists>v. py_get d ''warehouse'' = Inr v \<and> v \<noteq> PStr name"
      using assms(4) by (simp add: py_get_descriptor_field)
    then have "assign_warehouse_to_integration cfg w byos_id name acts =
           (Ret None, listing_prologue cfg w byos_id r
              @ [Print (''Found '' @ dec_nat (length whs) @ '' available warehouses'')]
              @ not_found_events name whs)"
      by (rule assign_not_found_eq [OF assms(1,2,3)])
    moreover have "not_found_events name whs =
        [Print (''\<newline>Error: Warehouse '' @ [CHR 0x27] @ name @ [CHR 0x27]
                @ '' not found in available warehouses.''),
         Print ''Available warehouses:'']
        @ map (\<lambda>d. Print (''  - '' @ (if has_warehouse_key d
                                       then py_str (descriptor_field d ''warehouse'')
                                       else ''None''))) whs"
      unfolding not_found_events_def
      using nameless_line by (intro arg_cong2 [where f = append] refl map_cong) simp_all
    ultimately show ?thesis
      using None scan by (simp add: named)
  next
    case (Some d)
    then have "d \<in> set whs"
      by (auto simp: find_Some_iff)
    then have "is_dict d"
      using assms(4) by blast
    then obtain kvs where d: "d = PDict kvs"
      by (cases d) simp_all
    have "find_matching whs name = Inr (Some (PDict kvs))"
      using scan Some d by simp
    then have "assign_warehouse_to_integration cfg w byos_id name acts =
        emit (listing_prologue cfg w byos_id r
              @ [Print (''Found '' @ dec_nat (length whs) @ '' available warehouses'')]
              @ found_events cfg w byos_id name (PDict kvs)
                  (case acts of None \<Rightarrow> WAREHOUSE_ACTIVITIES cfg | Some a \<Rightarrow> a))
          (case http w (assign_request cfg w byos_id (PDict kvs)
                         (case acts of None \<Rightarrow> WAREHOUSE_ACTIVITIES cfg | Some a \<Rightarrow> a)) of
             Inl e \<Rightarrow> (Raise e, [])
           | Inr r' \<Rightarrow> (Ret (Some r'), assign_epilogue r'))"
      by (rule assign_after_match [OF assms(1,2,3)])
    then show ?thesis
      using Some scan d by (simp add: named)
  qed
qed


theorem assign_skips_descriptors_without_name_witness:
  "http nameless_first_service (list_request example_config nameless_first_service (PInt 7))
     = Inr (answer 200 (PList [wh_nameless, wh_small_first]))
   \<and> is_dict wh_nameless \<and> is_dict wh_small_first
   \<and> \<not> has_warehouse_key wh_nameless
   \<and> find_matching [wh_nameless, wh_small_first] ''WH_SMALL'' = Inr (Some wh_small_first)
   \<and> fst (assign_warehouse_to_integration example_config nameless_first_service (PInt 7)
             ''WH_SMALL'' None) = Ret (Some (answer 200 PNone))
   \<and> requests_of (snd (assign_warehouse_to_integration example_config nameless_first_service
                          (PInt 7) ''WH_SMALL'' None))
       = [list_request example_config nameless_first_service (PInt 7),
          assign_request example_config nameless_first_service (PInt 7) wh_small_first
            [''query'', ''index'', ''dataflow'']]
   \<and> fst (assign_warehouse_to_integration example_config nameless_first_service (PInt 7)
             ''WH_LARGE'' None) = Ret None
   \<and> drop 7 (snd (assign_warehouse_to_integration example_config nameless_first_service (PInt 7)
                     ''WH_LARGE'' None))
       = [Print ''  - None'', Print ''  - WH_SMALL'']"
proof -
  have h1: "http nameless_first_service (list_request example_config nameless_first_service (PInt 7))
              = Inr (answer 200 (PList [wh_nameless, wh_small_first]))"
    by (simp add: nameless_first_service_def example_world_def list_request_def)
  have h2: "status_code (answer 200 (PList [wh_nameless, wh_small_first])) = 200"
    by (simp add: answer_def)
  have h3: "resp_json (answer 200 (PList [wh_nameless, wh_small_first]))
              = Some (PList [wh_nameless, wh_small_first])"
    by (simp add: answer_def)
  have d1: "is_dict wh_nameless" and d2: "is_dict wh_small_first"
    by (simp_all add: wh_nameless_def wh_small_first_def)
  have h4: "\<forall>d \<in> set [wh_nameless, wh_small_first]. is_dict d"
    using d1 d2 by simp
  have k1: "\<not> has_warehouse_key wh_nameless" and k2: "has_warehouse_key wh_small_first"
    by (simp_all add: has_warehouse_key_def wh_nameless_def wh_small_first_def)
  have f2: "descriptor_field wh_small_first ''warehouse'' = PStr ''WH_SMALL''"
    by (simp add: descriptor_field_def wh_small_first_def)
  have f1: "descriptor_field wh_nameless ''warehouse'' = PNone"
    by (simp add: descriptor_field_def wh_nameless_def)
  have g1: "py_get wh_nameless ''warehouse'' = Inr PNone"
    and g2: "py_get wh_small_first ''warehouse'' = Inr (PStr ''WH_SMALL'')"
    by (simp_all add: wh_nameless_def wh_small_first_def)
  have a: "WAREHOUSE_ACTIVITIES example_config = [''query'', ''index'', ''dataflow'']"
    by (simp add: example_config_def)
  have p: "http nameless_first_service
             (assign_request example_config nameless_first_service (PInt 7) wh_small_first
                [''query'', ''index'', ''dataflow''])
             = Inr (answer 200 PNone)"
    by (simp add: nameless_first_service_def example_world_def assign_request_def)
  note t1 = assign_skips_descriptors_without_name [OF h1 h2 h3 h4, of "''WH_SMALL''" None]
  note t2 = assign_skips_descriptors_without_name [OF h1 h2 h3 h4, of "''WH_LARGE''" None]
  have r1: "find_matching [wh_nameless, wh_small_first] ''WH_SMALL'' = Inr (Some wh_small_first)"
    using t1 by (simp add: k1 k2 f1 f2 g1 g2)
  have r2: "fst (assign_warehouse_to_integration example_config nameless_first_service (PInt 7)
             ''WH_SMALL'' None) = Ret (Some (answer 200 PNone))"
    using t1 by (simp add: k1 k2 f1 f2 g1 g2 a p)
  have r3: "requests_of (snd (assign_warehouse_to_integration example_config nameless_first_service
                          (PInt 7) ''WH_SMALL'' None))
       = [list_request example_config nameless_first_service (PInt 7),
          assign_request example_config nameless_first_service (PInt 7) wh_small_first
            [''query'', ''index'', ''dataflow'']]"
    using t1
    by (simp add: k1 k2 f1 f2 g1 g2 a p listing_prologue_def listing_start_def
        found_events_def assign_epilogue_def)
  have r4: "fst (assign_warehouse_to_integration example_config nameless_first_service (PInt 7)
             ''WH_LARGE'' None) = Ret None"
    using t2 by (simp add: k1 k2 f1 f2 g1 g2)
  have r5: "drop 7 (snd (assign_warehouse_to_integration example_config nameless_first_service
                     (PInt 7) ''WH_LARGE'' None))
       = [Print ''  - None'', Print ''  - WH_SMALL'']"
    using t2
    by (simp add: k1 k2 f1 f2 g1 g2 listing_prologue_def listing_start_def)
  show ?thesis
    using h1 d1 d2 k1 r1 r2 r3 r4 r5 by simp
qed

section \<open>What the steps after the account stage can do\<close>

lemma confined_pair_Ret [simp]: "confined P (Ret a, es) = list_all P (requests_of es)"
  by (simp add: confined_def)

lemma confined_pair_Raise [simp]: "confined P (Raise e, es) = list_all P (requests_of es)"
  by (simp add: confined_def)

lemma confined_emit [simp]: "confined P (emit es m) = (list_all P (requests_of es) \<and> confined P m)"
  by (auto simp: confined_def)

lemma confined_andthen:
  "confined P m \<Longrightarrow> (\<And>a. confined P (f a)) \<Longrightarrow> confined P (andthen m f)"
  by (cases m; cases "fst m") (auto simp: confined_def andthen_def)

lemma confined_before: "confined P m \<Longrightarrow> confined P n \<Longrightarrow> confined P (before m n)"
  by (simp add: before_def confined_andthen)

lemma confined_print [simp]: "confined P (py_print s)"
  by (simp add: py_print_def)

lemma confined_print_json [simp]: "confined P (print_json v)"
  by (simp add: print_json_def)

lemma confined_ret [simp]: "confined P (ret a)"
  by (simp add: ret_def)

lemma confined_lift_exc [simp]: "confined P (lift_exc r)"
  by (cases r) (simp_all add: lift_exc_def)

lemma confined_get_field [simp]: "confined P (get_field v k)"
  by (simp add: get_field_def)

lemma confined_json_of [simp]: "confined P (json_of r)"
  by (cases "resp_json r") (simp_all add: json_of_def ret_def)

lemma confined_send: "P rq \<Longrightarrow> confined P (send w rq)"
  by (cases "http w rq") (simp_all add: send_def)

lemma confined_if: "confined P a \<Longrightarrow> confined P b \<Longrightarrow> confined P (if c then a else b)"
  by simp

lemma confined_case_option:
  "confined P a \<Longrightarrow> (\<And>x. confined P (f x)) \<Longrightarrow> confined P (case v of None \<Rightarrow> a | Some x \<Rightarrow> f x)"
  by (cases v) simp_all

lemmas confined_intros = confined_andthen confined_before confined_if confined_case_option
  confined_send

lemma confined_print_available: "confined P (print_available whs)"
  by (induction whs) (auto intro!: confined_intros)

lemma confined_get_available_warehouses:
  "P (list_request cfg w byos_id) \<Longrightarrow> confined P (get_available_warehouses cfg w byos_id)"
  unfolding get_available_warehouses_def
  by (intro confined_intros) simp_all

lemma confined_assign:
  assumes "\<And>rq. req_url rq = warehouses_url cfg byos_id \<Longrightarrow> P rq"
  shows "confined P (assign_warehouse_to_integration cfg w byos_id name acts)"
  unfolding assign_warehouse_to_integration_def Let_def
  by (intro confined_intros confined_get_available_warehouses confined_print_available)
     (simp_all add: assms list_request_def)

lemma confined_create_byos:
  assumes "\<And>rq. req_url rq = byos_url cfg \<Longrightarrow> P rq"
  shows "confined P (create_byos_integration cfg w account_id fn ds)"
  unfolding create_byos_integration_def Let_def
  by (intro confined_intros) (simp_all add: assms)

lemma confined_provision:
  assumes "\<And>rq. req_url rq = byos_url cfg \<Longrightarrow> P rq"
    and "\<And>rq byos_id. req_url rq = warehouses_url cfg byos_id \<Longrightarrow> P rq"
  shows "confined P (provision cfg w account_id)"
  unfolding provision_def
  by (intro confined_intros confined_create_byos confined_assign)
     (simp_all add: assms)

lemma url_account_byos: "account_url cfg \<noteq> byos_url cfg"
  by (simp add: account_url_def byos_url_def)

lemma url_account_warehouses: "account_url cfg \<noteq> warehouses_url cfg byos_id"
  by (simp add: account_url_def warehouses_url_def)

lemma provision_never_exits: "fst (provision cfg w account_id) \<noteq> Exit n"
  using confined_provision [of cfg "\<lambda>_. True" w account_id]
  by (simp add: confined_def)

lemma provision_urls:
  "list_all (\<lambda>rq. req_url rq \<noteq> account_url cfg) (requests_of (snd (provision cfg w account_id)))"
  using confined_provision [of cfg "\<lambda>rq. req_url rq \<noteq> account_url cfg" w account_id]
    url_account_byos [of cfg] url_account_warehouses [of cfg]
  by (simp add: confined_def) metis

section \<open>The main block, stage by stage\<close>

lemma fst_andthen_Ret: "fst m = Ret a \<Longrightarrow> andthen m f = emit (snd m) (f a)"
  by (simp add: andthen_def emit_def)

lemma fst_andthen_Exit: "fst m = Exit n \<Longrightarrow> andthen m f = (Exit n, snd m)"
  by (simp add: andthen_def)

lemma fst_andthen_Raise: "fst m = Raise e \<Longrightarrow> andthen m f = (Raise e, snd m)"
  by (simp add: andthen_def)

lemma obtain_existing:
  assumes "EXISTING_ACCOUNT_ID cfg \<noteq> []"
  shows "obtain_account_id cfg w =
           (Ret (PStr (EXISTING_ACCOUNT_ID cfg)),
            [Print (replicate 60 (CHR ''='')), Print ''USING EXISTING ACCOUNT'',
             Print (replicate 60 (CHR ''='')),
             Print (''Using existing account ID: '' @ EXISTING_ACCOUNT_ID cfg)])"
  using assms by (simp add: obtain_account_id_def run_defs)

lemma obtain_refused:
  assumes "EXISTING_ACCOUNT_ID cfg = []"
    and "INSTANCE cfg = [] \<or> PRIVATE_KEY_FILE cfg = []
         \<or> (\<forall>key. read_file w (PRIVATE_KEY_FILE cfg) \<noteq> FileContents key)"
  shows "fst (obtain_account_id cfg w) = Exit 1
         \<and> requests_of (snd (obtain_account_id cfg w)) = []"
  using assms(1) create_snowflake_account_refuses [OF assms(2)]
  by (simp add: obtain_account_id_def fst_andthen_Exit)

lemma obtain_created:
  assumes "EXISTING_ACCOUNT_ID cfg = []" "INSTANCE cfg \<noteq> []" "PRIVATE_KEY_FILE cfg \<noteq> []"
    and "read_file w (PRIVATE_KEY_FILE cfg) = FileContents key"
  shows "obtain_account_id cfg w =
     (case http w (account_request cfg w key) of
        Inl e \<Rightarrow> (Raise e, account_prologue cfg w @ [Http (account_request cfg w key)])
      | Inr r \<Rightarrow>
          emit (account_prologue cfg w @ [Http (account_request cfg w key)] @ account_epilogue r)
            (if status_code r = 200 \<or> status_code r = 201 then
               (case resp_json r of
                  None \<Rightarrow> (Raise JSONDecodeError, [])
                | Some j \<Rightarrow>
                    (case py_get j ''id'' of
                       Inl e \<Rightarrow> (Raise e, [])
                     | Inr v \<Rightarrow>
                         if truthy v then (Ret v, [])
                         else (Exit 1, [Print ''Error: Could not extract account ID from response''])))
             else (Exit 1, [Print ''\<newline>Skipping BYOS integration creation due to account creation failure.''])))"
  using assms(1)
  unfolding obtain_account_id_def create_snowflake_account_sends [OF assms(2,3,4)]
  by (simp add: run_defs split: sum.splits option.splits)

lemma main_after_account:
  assumes "fst (obtain_account_id cfg w) = Ret account_id"
  shows "main cfg w = emit (snd (obtain_account_id cfg w)) (provision cfg w account_id)"
  using assms by (simp add: main_def fst_andthen_Ret)

lemma provision_eq:
  "provision cfg w account_id =
     emit ([Print (''\<newline>'' @ replicate 60 (CHR ''='')), Print ''CREATING BYOS INTEGRATION'',
            Print (replicate 60 (CHR ''=''))]
           @ byos_prologue cfg account_id @ [Http (byos_request cfg w account_id)])
       (case http w (byos_request cfg w account_id) of
          Inl e \<Rightarrow> (Raise e, [])
        | Inr byos_response \<Rightarrow>
            emit (byos_epilogue byos_response)
              (if status_code byos_response \<in> set [200, 201] \<and> WAREHOUSE_NAME cfg \<noteq> [] then
                 andthen (json_of byos_response) (\<lambda>byos_data.
                 andthen (get_field byos_data ''id'') (\<lambda>byos_id.
                 if truthy byos_id then
                   before (py_print (''\<newline>'' @ replicate 60 (CHR ''='')))
                  (before (py_print ''ASSIGNING WAREHOUSE TO INTEGRATION'')
                  (before (py_print (replicate 60 (CHR ''='')))
                  (andthen (assign_warehouse_to_integration cfg w byos_id (WAREHOUSE_NAME cfg) None)
                     (\<lambda>_. ret ()))))
                 else
                   py_print ''Error: Could not extract BYOS integration ID from response''))
               else if WAREHOUSE_NAME cfg = [] then
                 py_print ''\<newline>No WAREHOUSE_NAME configured - skipping warehouse assignment.''
               else ret ()))"
  unfolding provision_def create_byos_integration_sends
  by (cases "http w (byos_request cfg w account_id)") (simp_all add: py_print_def)

lemma provision_first_request:
  "take 1 (requests_of (snd (provision cfg w account_id))) = [byos_request cfg w account_id]"
  unfolding provision_eq
  by (simp add: byos_prologue_def)

section \<open>A supplied account identifier\<close>

text \<open>
  Claim C3. With a non-empty \<^verbatim>\<open>EXISTING_ACCOUNT_ID\<close> the account stage returns that
  string as the account identifier, unchecked; no request of the run goes to the
  account-creation address; the first request is the integration request, and its
  \<^verbatim>\<open>serviceAccountId\<close> value is the supplied string.
\<close>

theorem existing_account_skips_creation:
  assumes "EXISTING_ACCOUNT_ID cfg \<noteq> []"
  shows "fst (obtain_account_id cfg w) = Ret (PStr (EXISTING_ACCOUNT_ID cfg))
         \<and> list_all (\<lambda>rq. req_url rq \<noteq> account_url cfg) (requests_of (snd (main cfg w)))
         \<and> take 1 (requests_of (snd (main cfg w)))
             = [byos_request cfg w (PStr (EXISTING_ACCOUNT_ID cfg))]
         \<and> map_option (\<lambda>d. lookup_path d [''properties'', ''serviceAccountId'', ''value''])
              (req_data (byos_request cfg w (PStr (EXISTING_ACCOUNT_ID cfg))))
             = Some (Some (PStr (EXISTING_ACCOUNT_ID cfg)))"
proof -
  have o: "fst (obtain_account_id cfg w) = Ret (PStr (EXISTING_ACCOUNT_ID cfg))"
    and e: "requests_of (snd (obtain_account_id cfg w)) = []"
    by (simp_all add: obtain_existing [OF assms])
  have m: "requests_of (snd (main cfg w))
             = requests_of (snd (provision cfg w (PStr (EXISTING_ACCOUNT_ID cfg))))"
    by (simp add: main_after_account [OF o] e)
  have "map_option (\<lambda>d. lookup_path d [''properties'', ''serviceAccountId'', ''value''])
              (req_data (byos_request cfg w (PStr (EXISTING_ACCOUNT_ID cfg))))
             = Some (Some (PStr (EXISTING_ACCOUNT_ID cfg)))"
    by (simp add: byos_request_def byos_payload_def)
  then show ?thesis
    using o provision_urls [of cfg w "PStr (EXISTING_ACCOUNT_ID cfg)"]
      provision_first_request [of cfg w "PStr (EXISTING_ACCOUNT_ID cfg)"]
    by (simp add: m)
qed

theorem existing_account_skips_creation_witness:
  "EXISTING_ACCOUNT_ID existing_config = ''4711''
   \<and> requests_of (snd (main existing_config healthy_service))
       = [byos_request existing_config healthy_service (PStr ''4711'')]
   \<and> map_option (\<lambda>d. lookup_path d [''properties'', ''serviceAccountId'', ''value''])
        (req_data (byos_request existing_config healthy_service (PStr ''4711'')))
       = Some (Some (PStr ''4711''))"
proof -
  have h: "EXISTING_ACCOUNT_ID existing_config \<noteq> []"
    by (simp add: existing_config_def example_config_def)
  have i: "EXISTING_ACCOUNT_ID existing_config = ''4711''"
    by (simp add: existing_config_def example_config_def)
  have w: "WAREHOUSE_NAME existing_config = []"
    by (simp add: existing_config_def example_config_def)
  have o: "fst (obtain_account_id existing_config healthy_service) = Ret (PStr ''4711'')"
    using obtain_existing [OF h, of healthy_service] by (simp add: i)
  have a: "http healthy_service (byos_request existing_config healthy_service (PStr ''4711''))
             = Inr (answer 201 (PDict [(''id'', PStr ''b1'')]))"
    by (simp add: healthy_service_def example_world_def byos_request_def byos_url_def
        existing_config_def example_config_def)
  have "requests_of (snd (main existing_config healthy_service))
       = [byos_request existing_config healthy_service (PStr ''4711'')]"
    unfolding main_after_account [OF o] provision_eq
    using obtain_existing [OF h, of healthy_service]
    by (simp add: a w py_print_def byos_prologue_def byos_epilogue_def)
  then show ?thesis
    using existing_account_skips_creation [OF h, of healthy_service]
    by (simp add: i)
qed

section \<open>What the account stage sends and when it ends the process\<close>

lemma requests_of_account_events:
  "requests_of (account_prologue cfg w) = []" "requests_of (account_epilogue r) = []"
  by (simp_all add: account_prologue_def account_epilogue_def)

lemma obtain_requests:
  "list_all (\<lambda>rq. req_method rq = POST \<and> req_url rq = account_url cfg)
     (requests_of (snd (obtain_account_id cfg w)))"
proof (cases "EXISTING_ACCOUNT_ID cfg = []")
  case False
  then show ?thesis
    by (simp add: obtain_existing)
next
  case e: True
  show ?thesis
  proof (cases "INSTANCE cfg = [] \<or> PRIVATE_KEY_FILE cfg = []
                \<or> (\<forall>key. read_file w (PRIVATE_KEY_FILE cfg) \<noteq> FileContents key)")
    case True
    then show ?thesis
      using obtain_refused [OF e, of w] by simp
  next
    case False
    then obtain key where k: "INSTANCE cfg \<noteq> []" "PRIVATE_KEY_FILE cfg \<noteq> []"
        "read_file w (PRIVATE_KEY_FILE cfg) = FileContents key"
      by blast
    show ?thesis
      unfolding obtain_created [OF e k]
      by (simp add: account_prologue_def account_epilogue_def account_request_def
          split: sum.splits option.splits)
  qed
qed

lemma obtain_exit_iff:
  "fst (obtain_account_id cfg w) = Exit n \<longleftrightarrow> n = 1 \<and> account_stage_fails cfg w"
proof (cases "EXISTING_ACCOUNT_ID cfg = []")
  case False
  then show ?thesis
    by (simp add: obtain_existing account_stage_fails_def)
next
  case e: True
  show ?thesis
  proof (cases "INSTANCE cfg = [] \<or> PRIVATE_KEY_FILE cfg = []
                \<or> (\<forall>key. read_file w (PRIVATE_KEY_FILE cfg) \<noteq> FileContents key)")
    case True
    then have "account_stage_fails cfg w"
      using e by (auto simp: account_stage_fails_def split: file_result.splits)
    then show ?thesis
      using obtain_refused [OF e True] by auto
  next
    case False
    then obtain key where k: "INSTANCE cfg \<noteq> []" "PRIVATE_KEY_FILE cfg \<noteq> []"
        "read_file w (PRIVATE_KEY_FILE cfg) = FileContents key"
      by blast
    show ?thesis
      unfolding obtain_created [OF e k]
      using e k
      by (auto simp: account_stage_fails_def split: sum.splits option.splits)
  qed
qed

lemma main_exit_iff:
  "fst (main cfg w) = Exit n \<longleftrightarrow> n = 1 \<and> account_stage_fails cfg w"
proof (cases "fst (obtain_account_id cfg w)")
  case (Ret a)
  then show ?thesis
    using obtain_exit_iff [of cfg w] provision_never_exits [of cfg w a n]
    by (simp add: main_after_account)
next
  case (Exit k)
  then show ?thesis
    using obtain_exit_iff [of cfg w n]
    by (simp add: main_def fst_andthen_Exit)
next
  case (Raise x)
  then show ?thesis
    using obtain_exit_iff [of cfg w]
    by (simp add: main_def fst_andthen_Raise)
qed


section \<open>Runs without a warehouse name\<close>

text \<open>
  Claim C6. With an empty \<^verbatim>\<open>WAREHOUSE_NAME\<close>, once the account stage has returned an
  identifier and the integration request is answered with status 200 or 201, the run
  returns normally with exit status 0. Its requests are those of the account stage
  followed by the integration request and nothing else: every request is a POST to the
  account or the integration address, none is a GET or a PUT, and the last line printed
  is the notice that the warehouse assignment is skipped.
\<close>

theorem no_warehouse_name_ends_after_integration:
  assumes "WAREHOUSE_NAME cfg = []"
    and "fst (obtain_account_id cfg w) = Ret account_id"
    and "http w (byos_request cfg w account_id) = Inr r"
    and "status_code r = 200 \<or> status_code r = 201"
  shows "fst (main cfg w) = Ret ()
         \<and> exit_status (main cfg w) = 0
         \<and> requests_of (snd (main cfg w))
             = requests_of (snd (obtain_account_id cfg w)) @ [byos_request cfg w account_id]
         \<and> list_all (\<lambda>rq. req_method rq = POST
                            \<and> (req_url rq = account_url cfg \<or> req_url rq = byos_url cfg))
              (requests_of (snd (main cfg w)))
         \<and> last (snd (main cfg w))
             = Print ''\<newline>No WAREHOUSE_NAME configured - skipping warehouse assignment.''"
proof -
  have m: "main cfg w =
      emit (snd (obtain_account_id cfg w)
            @ [Print (''\<newline>'' @ replicate 60 (CHR ''='')), Print ''CREATING BYOS INTEGRATION'',
               Print (replicate 60 (CHR ''=''))]
            @ byos_prologue cfg account_id @ [Http (byos_request cfg w account_id)]
            @ byos_epilogue r)
        (Ret (), [Print ''\<newline>No WAREHOUSE_NAME configured - skipping warehouse assignment.''])"
    unfolding main_after_account [OF assms(2)] provision_eq
    using assms(1,3) by (simp add: py_print_def)
  have a: "list_all (\<lambda>rq. req_method rq = POST
                            \<and> (req_url rq = account_url cfg \<or> req_url rq = byos_url cfg))
             (requests_of (snd (obtain_account_id cfg w)))"
    using obtain_requests [of cfg w] by (simp add: list_all_iff)
  have b: "req_method (byos_request cfg w account_id) = POST"
          "req_url (byos_request cfg w account_id) = byos_url cfg"
    by (simp_all add: byos_request_def)
  show ?thesis
    unfolding m using a b
    by (simp add: exit_status_def byos_prologue_def byos_epilogue_def)
qed

theorem no_warehouse_name_ends_after_integration_witness:
  "WAREHOUSE_NAME no_warehouse_config = []
   \<and> fst (obtain_account_id no_warehouse_config healthy_service) = Ret (PInt 12)
   \<and> status_code (answer 201 (PDict [(''id'', PStr ''b1'')])) = 201
   \<and> exit_status (main no_warehouse_config healthy_service) = 0
   \<and> requests_of (snd (main no_warehouse_config healthy_service))
       = [account_request no_warehouse_config healthy_service ''KEY-MATERIAL'',
          byos_request no_warehouse_config healthy_service (PInt 12)]"
proof -
  have c: "WAREHOUSE_NAME no_warehouse_config = []"
          "EXISTING_ACCOUNT_ID no_warehouse_config = []"
          "INSTANCE no_warehouse_config \<noteq> []"
          "PRIVATE_KEY_FILE no_warehouse_config \<noteq> []"
    by (simp_all add: no_warehouse_config_def example_config_def)
  have k: "read_file healthy_service (PRIVATE_KEY_FILE no_warehouse_config)
             = FileContents ''KEY-MATERIAL''"
    by (simp add: healthy_service_def example_world_def no_warehouse_config_def
        example_config_def)
  have a: "http healthy_service (account_request no_warehouse_config healthy_service ''KEY-MATERIAL'')
             = Inr (answer 200 (PDict [(''id'', PInt 12)]))"
    by (simp add: healthy_service_def example_world_def account_request_def account_url_def
        no_warehouse_config_def example_config_def)
  have b: "http healthy_service (byos_request no_warehouse_config healthy_service (PInt 12))
             = Inr (answer 201 (PDict [(''id'', PStr ''b1'')]))"
    by (simp add: healthy_service_def example_world_def byos_request_def byos_url_def
        no_warehouse_config_def example_config_def)
  have o: "obtain_account_id no_warehouse_config healthy_service
             = (Ret (PInt 12),
                account_prologue no_warehouse_config healthy_service
                @ [Http (account_request no_warehouse_config healthy_service ''KEY-MATERIAL'')]
                @ account_epilogue (answer 200 (PDict [(''id'', PInt 12)])))"
    unfolding obtain_created [OF c(2,3,4) k]
    by (simp add: a answer_def)
  have s: "status_code (answer 201 (PDict [(''id'', PStr ''b1'')])) = 201"
    by (simp add: answer_def)
  have f: "fst (obtain_account_id no_warehouse_config healthy_service) = Ret (PInt 12)"
    by (simp add: o)
  have q: "requests_of (snd (obtain_account_id no_warehouse_config healthy_service))
            = [account_request no_warehouse_config healthy_service ''KEY-MATERIAL'']"
    by (simp add: o account_prologue_def account_epilogue_def)
  show ?thesis
    using no_warehouse_name_ends_after_integration [OF c(1) f b] s c(1) f
    by (simp add: q)
qed

section \<open>The exit status of a run\<close>

text \<open>
  Claim C1, as stated, fails. The integration request is answered with status 500, and
  the run still ends with exit status 0: after the account stage the script never calls
  \<^verbatim>\<open>exit\<close>.
\<close>

theorem integration_failure_ends_with_status_zero:
  "http integration_down_service
       (byos_request supplied_config integration_down_service (PStr ''4711''))
     = Inr (answer 500 PNone)
   \<and> status_code (answer 500 PNone) = 500
   \<and> requests_of (snd (main supplied_config integration_down_service))
       = [byos_request supplied_config integration_down_service (PStr ''4711'')]
   \<and> fst (main supplied_config integration_down_service) = Ret ()
   \<and> exit_status (main supplied_config integration_down_service) = 0"
proof -
  have h: "EXISTING_ACCOUNT_ID supplied_config \<noteq> []"
    and i: "EXISTING_ACCOUNT_ID supplied_config = ''4711''"
    and n: "WAREHOUSE_NAME supplied_config \<noteq> []"
    by (simp_all add: supplied_config_def example_config_def)
  have o: "fst (obtain_account_id supplied_config integration_down_service) = Ret (PStr ''4711'')"
    using obtain_existing [OF h, of integration_down_service] by (simp add: i)
  have a: "http integration_down_service
               (byos_request supplied_config integration_down_service (PStr ''4711''))
             = Inr (answer 500 PNone)"
    by (simp add: integration_down_service_def example_world_def byos_request_def byos_url_def
        supplied_config_def example_config_def)
  have s: "status_code (answer 500 PNone) = 500"
    by (simp add: answer_def)
  have m: "main supplied_config integration_down_service =
             (Ret (), snd (obtain_account_id supplied_config integration_down_service)
                @ [Print (''\<newline>'' @ replicate 60 (CHR ''='')), Print ''CREATING BYOS INTEGRATION'',
                   Print (replicate 60 (CHR ''=''))]
                @ byos_prologue supplied_config (PStr ''4711'')
                @ [Http (byos_request supplied_config integration_down_service (PStr ''4711''))]
                @ byos_epilogue (answer 500 PNone))"
    unfolding main_after_account [OF o] provision_eq
    using n by (simp add: a s ret_def)
  show ?thesis
    unfolding m using obtain_existing [OF h, of integration_down_service]
    by (simp add: a s exit_status_def byos_prologue_def byos_epilogue_def)
qed

text \<open>
  Claim C1, amended. A run calls \<^verbatim>\<open>exit\<close> only in the account stage, and then with
  status 1: when no account identifier is supplied and \<^verbatim>\<open>INSTANCE\<close> or
  \<^verbatim>\<open>PRIVATE_KEY_FILE\<close> is empty, the key file cannot be read, the account request is
  answered with a status other than 200 and 201, or it is answered with 200 or 201 and a
  body whose \<^verbatim>\<open>id\<close> is missing or false. The process ends with status 1 in exactly
  these cases and when an exception is not caught; in every other run, whatever the
  integration, listing and assignment requests are answered, it ends with status 0.
\<close>

theorem exit_status_decided_by_account_stage:
  "(fst (main cfg w) = Exit n) = (n = 1 \<and> account_stage_fails cfg w)
   \<and> exit_status (main cfg w)
       = (if account_stage_fails cfg w \<or> uncaught (main cfg w) then 1 else 0)"
proof (cases "fst (main cfg w)")
  case (Ret u)
  then show ?thesis
    using main_exit_iff [of cfg w 1]
    by (auto simp: exit_status_def uncaught_def)
next
  case (Exit k)
  then show ?thesis
    using main_exit_iff [of cfg w k]
    by (auto simp: exit_status_def uncaught_def)
next
  case (Raise e)
  then show ?thesis
    using main_exit_iff [of cfg w 1]
    by (auto simp: exit_status_def uncaught_def)
qed

theorem exit_status_decided_by_account_stage_witness:
  "account_stage_fails example_config failing_service
   \<and> exit_status (main example_config failing_service) = 1
   \<and> \<not> account_stage_fails supplied_config integration_down_service
   \<and> \<not> uncaught (main supplied_config integration_down_service)
   \<and> exit_status (main supplied_config integration_down_service) = 0"
proof -
  have a: "account_stage_fails example_config failing_service"
    by (simp add: account_stage_fails_def example_config_def failing_service_def
        example_world_def account_request_def account_url_def answer_def)
  have b: "\<not> account_stage_fails supplied_config integration_down_service"
    by (simp add: account_stage_fails_def supplied_config_def example_config_def)
  have h: "EXISTING_ACCOUNT_ID supplied_config \<noteq> []"
    and n: "WAREHOUSE_NAME supplied_config \<noteq> []"
    by (simp_all add: supplied_config_def example_config_def)
  have o: "fst (obtain_account_id supplied_config integration_down_service)
             = Ret (PStr (EXISTING_ACCOUNT_ID supplied_config))"
    using obtain_existing [OF h, of integration_down_service] by simp
  have r: "http integration_down_service
               (byos_request supplied_config integration_down_service
                  (PStr (EXISTING_ACCOUNT_ID supplied_config)))
             = Inr (answer 500 PNone)"
    by (simp add: integration_down_service_def example_world_def byos_request_def byos_url_def
        supplied_config_def example_config_def)
  have c: "\<not> uncaught (main supplied_config integration_down_service)"
    unfolding main_after_account [OF o] provision_eq
    using n by (simp add: r uncaught_def answer_def ret_def)
  have "exit_status (main example_config failing_service) = 1"
    using exit_status_decided_by_account_stage [of example_config failing_service 1] a
    by simp
  moreover have "exit_status (main supplied_config integration_down_service) = 0"
    using exit_status_decided_by_account_stage [of supplied_config integration_down_service 1]
      b c
    by simp
  ultimately show ?thesis
    using a b c by simp
qed

section \<open>An account response without an identifier\<close>

lemma main_account_exit:
  assumes "EXISTING_ACCOUNT_ID cfg = []" "INSTANCE cfg \<noteq> []" "PRIVATE_KEY_FILE cfg \<noteq> []"
    and "read_file w (PRIVATE_KEY_FILE cfg) = FileContents key"
    and "http w (account_request cfg w key) = Inr r"
  shows "status_code r = 200 \<or> status_code r = 201 \<Longrightarrow> resp_json r = Some j
           \<Longrightarrow> py_get j ''id'' = Inr v \<Longrightarrow> \<not> truthy v
           \<Longrightarrow> main cfg w =
                 (Exit 1, account_prologue cfg w @ [Http (account_request cfg w key)]
                    @ account_epilogue r
                    @ [Print ''Error: Could not extract account ID from response''])"
    and "status_code r \<noteq> 200 \<Longrightarrow> status_code r \<noteq> 201
           \<Longrightarrow> main cfg w =
                 (Exit 1, account_prologue cfg w @ [Http (account_request cfg w key)]
                    @ account_epilogue r
                    @ [Print ''\<newline>Skipping BYOS integration creation due to account creation failure.''])"
proof -
  note o = obtain_created [OF assms(1-4)]
  show "main cfg w =
          (Exit 1, account_prologue cfg w @ [Http (account_request cfg w key)]
             @ account_epilogue r
             @ [Print ''Error: Could not extract account ID from response''])"
    if "status_code r = 200 \<or> status_code r = 201" "resp_json r = Some j"
       "py_get j ''id'' = Inr v" "\<not> truthy v"
  proof -
    have "obtain_account_id cfg w =
            (Exit 1, account_prologue cfg w @ [Http (account_request cfg w key)]
               @ account_epilogue r
               @ [Print ''Error: Could not extract account ID from response''])"
      unfolding o using assms(5) that by auto
    then show ?thesis
      by (simp add: main_def)
  qed
  show "main cfg w =
          (Exit 1, account_prologue cfg w @ [Http (account_request cfg w key)]
             @ account_epilogue r
             @ [Print ''\<newline>Skipping BYOS integration creation due to account creation failure.''])"
    if "status_code r \<noteq> 200" "status_code r \<noteq> 201"
  proof -
    have "obtain_account_id cfg w =
            (Exit 1, account_prologue cfg w @ [Http (account_request cfg w key)]
               @ account_epilogue r
               @ [Print ''\<newline>Skipping BYOS integration creation due to account creation failure.''])"
      unfolding o using assms(5) that by simp
    then show ?thesis
      by (simp add: main_def)
  qed
qed

text \<open>
  Claim C4, as stated, fails. The account request is answered with status 202, a 2xx
  status, and a body without \<^verbatim>\<open>id\<close>: the run does not print the missing-identifier
  error; it ends with the notice that the account creation failed.
\<close>

theorem accepted_without_id_reports_creation_failure:
  "http accepted_without_id_service
      (account_request example_config accepted_without_id_service ''KEY-MATERIAL'')
     = Inr (answer 202 (PDict []))
   \<and> status_code (answer 202 (PDict [])) = 202
   \<and> py_get (PDict []) ''id'' = Inr PNone
   \<and> Print ''Error: Could not extract account ID from response''
        \<notin> set (snd (main example_config accepted_without_id_service))
   \<and> last (snd (main example_config accepted_without_id_service))
       = Print ''\<newline>Skipping BYOS integration creation due to account creation failure.''"
proof -
  have c: "EXISTING_ACCOUNT_ID example_config = []" "INSTANCE example_config \<noteq> []"
          "PRIVATE_KEY_FILE example_config \<noteq> []"
    by (simp_all add: example_config_def)
  have k: "read_file accepted_without_id_service (PRIVATE_KEY_FILE example_config)
             = FileContents ''KEY-MATERIAL''"
    by (simp add: accepted_without_id_service_def example_world_def example_config_def)
  have a: "http accepted_without_id_service
             (account_request example_config accepted_without_id_service ''KEY-MATERIAL'')
             = Inr (answer 202 (PDict []))"
    by (simp add: accepted_without_id_service_def example_world_def account_request_def
        account_url_def example_config_def)
  have s: "status_code (answer 202 (PDict [])) = 202"
    by (simp add: answer_def)
  have m: "main example_config accepted_without_id_service =
             (Exit 1, account_prologue example_config accepted_without_id_service
                @ [Http (account_request example_config accepted_without_id_service ''KEY-MATERIAL'')]
                @ account_epilogue (answer 202 (PDict []))
                @ [Print ''\<newline>Skipping BYOS integration creation due to account creation failure.''])"
    by (rule main_account_exit(2) [OF c k a]) (simp_all add: s)
  have p: "Print ''Error: Could not extract account ID from response''
             \<notin> set (account_prologue example_config accepted_without_id_service)"
    by (simp add: account_prologue_def example_config_def accepted_without_id_service_def
        example_world_def)
  have e: "Print ''Error: Could not extract account ID from response''
             \<notin> set (account_epilogue (answer 202 (PDict [])))"
    by (simp add: account_epilogue_def answer_def)
  show ?thesis
    unfolding m using a s p e by simp
qed

text \<open>
  Claim C4, amended. For a configuration that passes the checks and a readable key file:
  if the account request is answered with status 200 or 201 and a JSON object whose
  \<^verbatim>\<open>id\<close> is missing or false (\<^verbatim>\<open>None\<close>, empty, zero), the run prints the
  missing-identifier error last and exits with status 1; if it is answered with any other
  status, other 2xx statuses included, the run prints the notice that the account creation
  failed and exits with status 1. In both cases the account request is the only request
  of the run, so no integration request is sent.
\<close>

theorem account_without_id_stops_run:
  assumes "EXISTING_ACCOUNT_ID cfg = []" "INSTANCE cfg \<noteq> []" "PRIVATE_KEY_FILE cfg \<noteq> []"
    and "read_file w (PRIVATE_KEY_FILE cfg) = FileContents key"
    and "http w (account_request cfg w key) = Inr r"
    and "(status_code r = 200 \<or> status_code r = 201)
           \<and> resp_json r = Some j \<and> py_get j ''id'' = Inr v \<and> \<not> truthy v
         \<or> status_code r \<noteq> 200 \<and> status_code r \<noteq> 201"
  shows "main cfg w =
           (Exit 1, account_prologue cfg w @ [Http (account_request cfg w key)]
              @ account_epilogue r
              @ [Print (if status_code r = 200 \<or> status_code r = 201
                        then ''Error: Could not extract account ID from response''
                        else ''\<newline>Skipping BYOS integration creation due to account creation failure.'')])
         \<and> exit_status (main cfg w) = 1
         \<and> requests_of (snd (main cfg w)) = [account_request cfg w key]"
proof -
  have m: "main cfg w =
           (Exit 1, account_prologue cfg w @ [Http (account_request cfg w key)]
              @ account_epilogue r
              @ [Print (if status_code r = 200 \<or> status_code r = 201
                        then ''Error: Could not extract account ID from response''
                        else ''\<newline>Skipping BYOS integration creation due to account creation failure.'')])"
    using assms(6) main_account_exit [OF assms(1-5)] by auto
  show ?thesis
    unfolding m by (simp add: exit_status_def requests_of_account_events)
qed

theorem account_without_id_stops_run_witness:
  "status_code (answer 200 (PDict [(''name'', PStr ''acme_sf'')])) = 200
   \<and> py_get (PDict [(''name'', PStr ''acme_sf'')]) ''id'' = Inr PNone
   \<and> exit_status (main example_config id_missing_service) = 1
   \<and> requests_of (snd (main example_config id_missing_service))
       = [account_request example_config id_missing_service ''KEY-MATERIAL'']
   \<and> last (snd (main example_config id_missing_service))
       = Print ''Error: Could not extract account ID from response''"
proof -
  have c: "EXISTING_ACCOUNT_ID example_config = []" "INSTANCE example_config \<noteq> []"
          "PRIVATE_KEY_FILE example_config \<noteq> []"
    by (simp_all add: example_config_def)
  have k: "read_file id_missing_service (PRIVATE_KEY_FILE example_config)
             = FileContents ''KEY-MATERIAL''"
    by (simp add: id_missing_service_def example_world_def example_config_def)
  have a: "http id_missing_service
             (account_request example_config id_missing_service ''KEY-MATERIAL'')
             = Inr (answer 200 (PDict [(''name'', PStr ''acme_sf'')]))"
    by (simp add: id_missing_service_def example_world_def account_request_def
        account_url_def example_config_def)
  have s: "status_code (answer 200 (PDict [(''name'', PStr ''acme_sf'')])) = 200"
          "resp_json (answer 200 (PDict [(''name'', PStr ''acme_sf'')]))
             = Some (PDict [(''name'', PStr ''acme_sf'')])"
    by (simp_all add: answer_def)
  have g: "py_get (PDict [(''name'', PStr ''acme_sf'')]) ''id'' = Inr PNone"
    by simp
  have t: "\<not> truthy PNone"
    by simp
  have h: "(status_code (answer 200 (PDict [(''name'', PStr ''acme_sf'')])) = 200
            \<or> status_code (answer 200 (PDict [(''name'', PStr ''acme_sf'')])) = 201)
           \<and> resp_json (answer 200 (PDict [(''name'', PStr ''acme_sf'')]))
               = Some (PDict [(''name'', PStr ''acme_sf'')])
           \<and> py_get (PDict [(''name'', PStr ''acme_sf'')]) ''id'' = Inr PNone
           \<and> \<not> truthy PNone
         \<or> status_code (answer 200 (PDict [(''name'', PStr ''acme_sf'')])) \<noteq> 200
           \<and> status_code (answer 200 (PDict [(''name'', PStr ''acme_sf'')])) \<noteq> 201"
    using s g t by simp
  show ?thesis
    using account_without_id_stops_run [OF c k a h] s(1) g
    by (simp add: exit_status_def requests_of_account_events)
qed

section \<open>The private key in the output and in the request\<close>

lemma printed_account_run:
  "printed (account_prologue cfg w @ [Http rq] @ account_epilogue r)
     = account_prologue cfg w @ account_epilogue r"
  by (simp add: printed_def account_prologue_def account_epilogue_def)

lemma json_printed_account_run:
  "json_printed (account_prologue cfg w @ [Http rq] @ account_epilogue r)
     = [account_payload cfg ''[PRIVATE KEY CONTENTS HIDDEN]'']"
  by (simp add: json_printed_def account_prologue_def account_epilogue_def)

text \<open>
  Claim C7, as stated, fails. The function prints the text of the response as it is
  received: when the service answers with the key, the key is a line of the output.
\<close>

theorem echoed_key_is_printed:
  "read_file echoing_service (PRIVATE_KEY_FILE example_config) = FileContents ''KEY-MATERIAL''
   \<and> Print ''KEY-MATERIAL''
        \<in> set (printed (snd (create_snowflake_account example_config echoing_service)))"
proof -
  have c: "INSTANCE example_config \<noteq> []" "PRIVATE_KEY_FILE example_config \<noteq> []"
    by (simp_all add: example_config_def)
  have k: "read_file echoing_service (PRIVATE_KEY_FILE example_config)
             = FileContents ''KEY-MATERIAL''"
    by (simp add: echoing_service_def example_world_def example_config_def)
  have a: "http echoing_service (account_request example_config echoing_service ''KEY-MATERIAL'')
             = Inr \<lparr>status_code = 200, resp_text = ''KEY-MATERIAL'',
                     resp_json = Some (PDict [(''id'', PInt 12)])\<rparr>"
    by (simp add: echoing_service_def example_world_def account_request_def account_url_def
        example_config_def)
  have s: "snd (create_snowflake_account example_config echoing_service)
             = account_prologue example_config echoing_service
               @ [Http (account_request example_config echoing_service ''KEY-MATERIAL'')]
               @ account_epilogue \<lparr>status_code = 200, resp_text = ''KEY-MATERIAL'',
                                     resp_json = Some (PDict [(''id'', PInt 12)])\<rparr>"
    by (simp add: create_snowflake_account_sends [OF c k] a)
  have "Print ''KEY-MATERIAL''
          \<in> set (printed (snd (create_snowflake_account example_config echoing_service)))"
    unfolding s printed_account_run
    by (simp add: account_epilogue_def)
  then show ?thesis
    using k by simp
qed

text \<open>
  Claim C7, amended. For a configuration that passes the checks, a readable key file and
  an answered request: the one JSON document the function prints is the payload with
  \<^verbatim>\<open>[PRIVATE KEY CONTENTS HIDDEN]\<close> in the place of the key; the body of the one
  request it sends is the payload with the raw key, so the redaction of the printed copy
  does not reach what is sent; and what is printed is determined by the configuration,
  the access token, and the status and text of the response: a run with another key file
  content and the same token, status and text prints the same. The response text is
  printed as received, so nothing is promised for a key that the service sends back.
\<close>

theorem key_is_sent_and_hidden_in_debug_payload:
  assumes "INSTANCE cfg \<noteq> []" "PRIVATE_KEY_FILE cfg \<noteq> []"
    and "read_file w (PRIVATE_KEY_FILE cfg) = FileContents key"
    and "http w (account_request cfg w key) = Inr r"
    and "read_file w' (PRIVATE_KEY_FILE cfg) = FileContents key'"
    and "http w' (account_request cfg w' key') = Inr r'"
    and "access_token w' = access_token w"
    and "status_code r' = status_code r" "resp_text r' = resp_text r"
  shows "json_printed (snd (create_snowflake_account cfg w))
           = [account_payload cfg ''[PRIVATE KEY CONTENTS HIDDEN]'']
         \<and> lookup_path (account_payload cfg ''[PRIVATE KEY CONTENTS HIDDEN]'')
               [''configurations'', ''privateKey'']
             = Some (PStr ''[PRIVATE KEY CONTENTS HIDDEN]'')
         \<and> map req_data (requests_of (snd (create_snowflake_account cfg w)))
             = [Some (account_payload cfg key)]
         \<and> lookup_path (account_payload cfg key) [''configurations'', ''privateKey'']
             = Some (PStr key)
         \<and> printed (snd (create_snowflake_account cfg w))
             = account_prologue cfg w @ account_epilogue r
         \<and> printed (snd (create_snowflake_account cfg w'))
             = printed (snd (create_snowflake_account cfg w))"
proof -
  have s: "snd (create_snowflake_account cfg w)
             = account_prologue cfg w @ [Http (account_request cfg w key)] @ account_epilogue r"
    by (simp add: create_snowflake_account_sends [OF assms(1-3)] assms(4))
  have s': "snd (create_snowflake_account cfg w')
             = account_prologue cfg w' @ [Http (account_request cfg w' key')] @ account_epilogue r'"
    by (simp add: create_snowflake_account_sends [OF assms(1,2,5)] assms(6))
  have p: "account_prologue cfg w' = account_prologue cfg w"
    by (simp add: account_prologue_def assms(7))
  have e: "account_epilogue r' = account_epilogue r"
    by (simp add: account_epilogue_def assms(8,9))
  have j: "json_printed (snd (create_snowflake_account cfg w))
             = [account_payload cfg ''[PRIVATE KEY CONTENTS HIDDEN]'']"
    unfolding s by (rule json_printed_account_run)
  have q: "map req_data (requests_of (snd (create_snowflake_account cfg w)))
             = [Some (account_payload cfg key)]"
    unfolding s by (simp add: account_request_def requests_of_account_events)
  have l: "lookup_path (account_payload cfg k) [''configurations'', ''privateKey'']
             = Some (PStr k)" for k
    by (simp add: account_payload_def)
  have o: "printed (snd (create_snowflake_account cfg w))
             = account_prologue cfg w @ account_epilogue r"
    unfolding s by (rule printed_account_run)
  have o': "printed (snd (create_snowflake_account cfg w'))
             = account_prologue cfg w' @ account_epilogue r'"
    unfolding s' by (rule printed_account_run)
  show ?thesis
    using j q l o o' p e by simp
qed

theorem key_is_sent_and_hidden_in_debug_payload_witness:
  "read_file healthy_service (PRIVATE_KEY_FILE example_config) = FileContents ''KEY-MATERIAL''
   \<and> read_file other_key_service (PRIVATE_KEY_FILE example_config) = FileContents ''OTHER-KEY''
   \<and> map req_data (requests_of (snd (create_snowflake_account example_config healthy_service)))
       = [Some (account_payload example_config ''KEY-MATERIAL'')]
   \<and> json_printed (snd (create_snowflake_account example_config healthy_service))
       = [account_payload example_config ''[PRIVATE KEY CONTENTS HIDDEN]'']
   \<and> printed (snd (create_snowflake_account example_config other_key_service))
       = printed (snd (create_snowflake_account example_config healthy_service))"
proof -
  have c: "INSTANCE example_config \<noteq> []" "PRIVATE_KEY_FILE example_config \<noteq> []"
    by (simp_all add: example_config_def)
  have k: "read_file healthy_service (PRIVATE_KEY_FILE example_config)
             = FileContents ''KEY-MATERIAL''"
    by (simp add: healthy_service_def example_world_def example_config_def)
  have k': "read_file other_key_service (PRIVATE_KEY_FILE example_config)
             = FileContents ''OTHER-KEY''"
    by (simp add: other_key_service_def)
  have a: "http healthy_service (account_request example_config healthy_service ''KEY-MATERIAL'')
             = Inr (answer 200 (PDict [(''id'', PInt 12)]))"
    by (simp add: healthy_service_def example_world_def account_request_def account_url_def
        example_config_def)
  have a': "http other_key_service (account_request example_config other_key_service ''OTHER-KEY'')
             = Inr (answer 200 (PDict [(''id'', PInt 12)]))"
    by (simp add: other_key_service_def healthy_service_def example_world_def
        account_request_def account_url_def example_config_def)
  have t: "access_token other_key_service = access_token healthy_service"
    by (simp add: other_key_service_def)
  show ?thesis
    using key_is_sent_and_hidden_in_debug_payload [OF c k a k' a' t] k k'
    by simp
qed

end
